theory Spec2Isabelle
  imports Complex_Main
begin

section \<open>Numbers\<close>

text \<open>
  The programs compute with numpy's double-precision floats. A value is modelled as a
  real number or one of the three special values of IEEE 754 that the source produces and
  tests for: not-a-number (a missing sample) and the two infinities (a division by
  zero). Arithmetic on finite values is exact real arithmetic: rounding, overflow and
  the sign of zero are outside the model. numpy's array arithmetic never raises; it
  yields the special values. The pressure correction, whose property is an exact
  equality of computed floats, is modelled with the rounding of double precision
  instead (see the section on double precision).
\<close>

datatype npfloat = NaN | NInf | Fin real | PInf

fun isnan :: "npfloat \<Rightarrow> bool" where
  "isnan NaN = True"
| "isnan _ = False"

fun fneg :: "npfloat \<Rightarrow> npfloat" where
  "fneg NaN = NaN"
| "fneg NInf = PInf"
| "fneg PInf = NInf"
| "fneg (Fin x) = Fin (- x)"

fun fadd :: "npfloat \<Rightarrow> npfloat \<Rightarrow> npfloat" where
  "fadd NaN _ = NaN"
| "fadd _ NaN = NaN"
| "fadd PInf NInf = NaN"
| "fadd NInf PInf = NaN"
| "fadd PInf _ = PInf"
| "fadd _ PInf = PInf"
| "fadd NInf _ = NInf"
| "fadd _ NInf = NInf"
| "fadd (Fin x) (Fin y) = Fin (x + y)"

definition fsub :: "npfloat \<Rightarrow> npfloat \<Rightarrow> npfloat" where
  "fsub x y = fadd x (fneg y)"

text \<open>The sign of a value that is not NaN, for products and quotients with an infinity.\<close>

fun fsgn :: "npfloat \<Rightarrow> real" where
  "fsgn NaN = 0"
| "fsgn NInf = - 1"
| "fsgn PInf = 1"
| "fsgn (Fin x) = sgn x"

definition signed_inf :: "real \<Rightarrow> npfloat" where
  "signed_inf s = (if s = 0 then NaN else if 0 < s then PInf else NInf)"

fun fmul :: "npfloat \<Rightarrow> npfloat \<Rightarrow> npfloat" where
  "fmul NaN _ = NaN"
| "fmul _ NaN = NaN"
| "fmul (Fin x) (Fin y) = Fin (x * y)"
| "fmul x y = signed_inf (fsgn x * fsgn y)"

text \<open>
  Division: a finite non-zero value over zero is an infinity, zero over zero and an
  infinity over an infinity are NaN, a finite value over an infinity is zero.
\<close>

fun fdiv :: "npfloat \<Rightarrow> npfloat \<Rightarrow> npfloat" where
  "fdiv NaN _ = NaN"
| "fdiv _ NaN = NaN"
| "fdiv (Fin x) (Fin y) = (if y = 0 then signed_inf (sgn x) else Fin (x / y))"
| "fdiv (Fin x) _ = Fin 0"
| "fdiv x (Fin y) = signed_inf (fsgn x * (if y < 0 then - 1 else 1))"
| "fdiv _ _ = NaN"

fun fsqrt :: "npfloat \<Rightarrow> npfloat" where
  "fsqrt NaN = NaN"
| "fsqrt NInf = NaN"
| "fsqrt PInf = PInf"
| "fsqrt (Fin x) = (if x < 0 then NaN else Fin (sqrt x))"

fun fexp :: "npfloat \<Rightarrow> npfloat" where
  "fexp NaN = NaN"
| "fexp NInf = Fin 0"
| "fexp PInf = PInf"
| "fexp (Fin x) = Fin (exp x)"

text \<open>\<open>x ** n\<close> for a non-negative integer exponent: repeated multiplication.\<close>

primrec fpow :: "npfloat \<Rightarrow> nat \<Rightarrow> npfloat" where
  "fpow x 0 = Fin 1"
| "fpow x (Suc n) = fmul x (fpow x n)"

text \<open>Comparisons: every comparison with NaN is false.\<close>

fun fless :: "npfloat \<Rightarrow> npfloat \<Rightarrow> bool" where
  "fless NaN _ = False"
| "fless _ NaN = False"
| "fless _ NInf = False"
| "fless NInf _ = True"
| "fless PInf _ = False"
| "fless _ PInf = True"
| "fless (Fin x) (Fin y) = (x < y)"

definition fgreater :: "npfloat \<Rightarrow> npfloat \<Rightarrow> bool" where
  "fgreater x y = fless y x"

text \<open>
  \<open>np.nansum\<close> of a one-dimensional array adds the values that are not NaN;
  \<open>np.nanmean\<close> divides that sum by their number, and is NaN (zero over zero) when
  there is none.
\<close>

definition nansum :: "npfloat list \<Rightarrow> npfloat" where
  "nansum xs = foldl fadd (Fin 0) (filter (\<lambda>v. \<not> isnan v) xs)"

definition count_not_nan :: "npfloat list \<Rightarrow> nat" where
  "count_not_nan xs = length (filter (\<lambda>v. \<not> isnan v) xs)"

definition nanmean :: "npfloat list \<Rightarrow> npfloat" where
  "nanmean xs = fdiv (nansum xs) (Fin (real (count_not_nan xs)))"

section \<open>The correction engine (coscal/correct\_data.py)\<close>


section \<open>Double precision\<close>

text \<open>
  An operation of IEEE 754 double precision returns the exact result rounded to the
  nearest double, a tie going to the double with an even significand; a rounded result
  of magnitude \<open>2^1024\<close> or more is an infinity, and below \<open>2^-1022\<close> the doubles are
  spaced by \<open>2^-1074\<close>. \<open>dbl x\<close> is that rounding of the real number \<open>x\<close>. The sign of
  zero is outside the model.
\<close>

definition round_half_even :: "real \<Rightarrow> int" where
  "round_half_even x =
    (let f = \<lfloor>x\<rfloor>; r = x - of_int f
     in if r < 1 / 2 then f else if 1 / 2 < r then f + 1 else if even f then f else f + 1)"

text \<open>
  The exponent \<open>e\<close> of a positive number \<open>a\<close>, with \<open>2^e \<le> a < 2^(e + 1)\<close>, searched
  from the start \<open>e\<close> in at most \<open>k\<close> steps; the exponents of the doubles lie between
  -1074 and 1023.
\<close>

fun find_exponent :: "nat \<Rightarrow> int \<Rightarrow> real \<Rightarrow> int" where
  "find_exponent 0 e a = e"
| "find_exponent (Suc k) e a =
    (if a < 2 powi e then find_exponent k (e - 1) a
     else if 2 powi (e + 1) \<le> a then find_exponent k (e + 1) a
     else e)"

definition binade :: "real \<Rightarrow> int" where
  "binade x = max (- 1022) (find_exponent 2200 0 \<bar>x\<bar>)"

definition dbl :: "real \<Rightarrow> npfloat" where
  "dbl x =
    (let q = 2 powi (binade x - 52);
         y = of_int (round_half_even (x / q)) * q
     in if 2 powi 1024 \<le> \<bar>y\<bar> then (if 0 < y then PInf else NInf) else Fin y)"

text \<open>
  The rounded operations: the special values as in exact arithmetic, a finite exact
  result rounded. A float literal of Python is the double nearest to the decimal
  written; \<open>b ** n\<close> of two Python integers with a negative \<open>n\<close> is a float. The
  power and the exponential are taken as correctly rounded.
\<close>

fun around :: "npfloat \<Rightarrow> npfloat" where
  "around (Fin x) = dbl x"
| "around v = v"


definition lit :: "real \<Rightarrow> npfloat" where
  "lit x = dbl x"

definition int_pow_float :: "int \<Rightarrow> int \<Rightarrow> npfloat" where
  "int_pow_float b n = dbl (of_int b powi n)"

definition dadd :: "npfloat \<Rightarrow> npfloat \<Rightarrow> npfloat" where
  "dadd x y = around (fadd x y)"

definition dsub :: "npfloat \<Rightarrow> npfloat \<Rightarrow> npfloat" where
  "dsub x y = around (fsub x y)"

definition dmul :: "npfloat \<Rightarrow> npfloat \<Rightarrow> npfloat" where
  "dmul x y = around (fmul x y)"

definition ddiv :: "npfloat \<Rightarrow> npfloat \<Rightarrow> npfloat" where
  "ddiv x y = around (fdiv x y)"

definition dpow :: "npfloat \<Rightarrow> nat \<Rightarrow> npfloat" where
  "dpow x n = around (fpow x n)"

definition dexp :: "npfloat \<Rightarrow> npfloat" where
  "dexp x = around (fexp x)"

text \<open>
  \<open>np.nanmean\<close> in double precision: the missing values are replaced by zero, the
  array is summed, and the sum is divided by the number of values that are not
  missing. The order in which numpy adds the values of an array depends on the length
  of the array, so the sum is a parameter, \<open>np_sum\<close>. \<open>sum_in_sequence\<close> adds the
  values one after another.
\<close>

definition sum_in_sequence :: "npfloat list \<Rightarrow> npfloat" where
  "sum_in_sequence xs = foldl dadd (Fin 0) xs"

definition nanmean_double :: "(npfloat list \<Rightarrow> npfloat) \<Rightarrow> npfloat list \<Rightarrow> npfloat" where
  "nanmean_double np_sum xs =
    ddiv (np_sum (map (\<lambda>v. if isnan v then Fin 0 else v) xs)) (Fin (real (count_not_nan xs)))"

section \<open>The pressure correction in double precision (coscal/correct\_data.py)\<close>

text \<open>
  \<open>attenuation_length\<close> once more, every literal and every operation rounded as the
  program rounds it.
\<close>

definition attenuation_length_double :: "npfloat \<Rightarrow> npfloat \<Rightarrow> npfloat" where
  "attenuation_length_double pressure rigidity =
    (let c_0 = dmul (lit 5.4196) (int_pow_float 10 (- 3));
         c_1 = dmul (lit 2.2082) (int_pow_float 10 (- 4));
         c_2 = dmul (fneg (lit 5.1952)) (int_pow_float 10 (- 7));
         c_3 = dmul (lit 7.2062) (int_pow_float 10 (- 6));
         c_4 = dmul (fneg (lit 1.9702)) (int_pow_float 10 (- 6));
         c_5 = dmul (fneg (lit 9.8334)) (int_pow_float 10 (- 9));
         c_6 = dmul (lit 3.4201) (int_pow_float 10 (- 9));
         c_7 = dmul (lit 4.9898) (int_pow_float 10 (- 12));
         c_8 = dmul (fneg (lit 1.7192)) (int_pow_float 10 (- 12));
         depth = dmul pressure (lit 0.981);
         beta =
           dadd (dadd (dadd (dadd (dadd c_0
             (dmul c_1 rigidity))
             (dmul c_2 (dpow rigidity 2)))
             (dmul (dadd c_3 (dmul c_4 rigidity)) depth))
             (dmul (dadd c_5 (dmul c_6 rigidity)) (dpow depth 2)))
             (dmul (dadd c_7 (dmul c_8 rigidity)) (dpow depth 3))
     in beta)"

text \<open>
  \<open>pressure_correction\<close>: the pressure series is a column of the station's table; the
  arithmetic with the scalar \<open>p_0\<close> is elementwise.
\<close>

definition pressure_correction ::
    "(npfloat list \<Rightarrow> npfloat) \<Rightarrow> npfloat list \<Rightarrow> npfloat \<Rightarrow> npfloat list" where
  "pressure_correction np_sum pressure rigidity =
    (let p_0 = nanmean_double np_sum pressure;
         pressure_diff = map (\<lambda>p. dsub p p_0) pressure;
         mass_attenuation_length = attenuation_length_double p_0 rigidity;
         exponent = map (\<lambda>d. dmul d mass_attenuation_length) pressure_diff;
         pressure_corr = map dexp exponent
     in pressure_corr)"

section \<open>Errors\<close>

text \<open>
  An exception of the Python program is an error value; a function that can raise
  returns \<open>py_error + 'a\<close>, with \<open>Inl\<close> the exception.
\<close>

datatype py_error =
    KeyError string
  | ValueError string
  | IndexError string
  | NameError string
  | UnboundLocalError string
  | ZeroDivisionError string
  | SystemExit int
  | IOError string

section \<open>Library functions of numpy used by the quality filter\<close>

text \<open>
  \<open>np.percentile(data, q)\<close> with numpy's default method (linear): the data is sorted,
  the virtual index is \<open>(n - 1) * (q / 100)\<close>, and the result interpolates between
  the two neighbouring order statistics. A NaN anywhere in the data makes the result
  NaN. A percentile outside \<open>[0, 100]\<close> is refused with a ValueError; an empty data
  array is refused with an IndexError.
\<close>

fun finsert :: "npfloat \<Rightarrow> npfloat list \<Rightarrow> npfloat list" where
  "finsert x [] = [x]"
| "finsert x (y # ys) = (if fless y x then y # finsert x ys else x # y # ys)"

definition fsort :: "npfloat list \<Rightarrow> npfloat list" where
  "fsort xs = foldr finsert xs []"

definition lerp :: "npfloat \<Rightarrow> npfloat \<Rightarrow> real \<Rightarrow> npfloat" where
  "lerp a b t =
    (let diff_b_a = fsub b a in
       if t < 1 / 2 then fadd a (fmul diff_b_a (Fin t))
       else fsub b (fmul diff_b_a (Fin (1 - t))))"

definition percentile :: "npfloat list \<Rightarrow> real \<Rightarrow> py_error + npfloat" where
  "percentile data q =
    (if q < 0 \<or> 100 < q then Inl (ValueError ''Percentiles must be in the range [0, 100]'')
     else if data = [] then Inl (IndexError ''index -1 is out of bounds for axis 0 with size 0'')
     else if list_ex isnan data then Inr NaN
     else
       (let n = length data;
            arr = fsort data;
            virtual_index = real (n - 1) * (q / 100);
            previous_index = nat \<lfloor>virtual_index\<rfloor>
        in if real (n - 1) \<le> virtual_index then Inr (arr ! (n - 1))
           else Inr (lerp (arr ! previous_index) (arr ! Suc previous_index)
                      (virtual_index - real previous_index))))"

text \<open>
  \<open>np.interp(x, xp, fp)\<close>: piecewise linear interpolation through the sample points
  \<open>(xp, fp)\<close>, \<open>xp\<close> increasing. Left of the first sample point the result is the
  first value, right of the last one the last value. An empty array of sample points
  is refused with a ValueError. The positions are array indices here.
\<close>

definition interp_segment :: "nat \<Rightarrow> npfloat \<Rightarrow> nat \<Rightarrow> npfloat \<Rightarrow> nat \<Rightarrow> npfloat" where
  "interp_segment x0 y0 x1 y1 x =
    (let slope = fdiv (fsub y1 y0) (Fin (real x1 - real x0));
         res = fadd (fmul slope (Fin (real x - real x0))) y0
     in if isnan res then
          (let res2 = fadd (fmul slope (Fin (real x - real x1))) y1
           in if isnan res2 \<and> y0 = y1 \<and> \<not> isnan y0 then y0 else res2)
        else res)"

fun interp_from :: "nat list \<Rightarrow> npfloat list \<Rightarrow> nat \<Rightarrow> npfloat" where
  "interp_from (x0 # x1 # xp) (y0 # y1 # fp) x =
    (if x < x1 then (if x = x0 then y0 else interp_segment x0 y0 x1 y1 x)
     else interp_from (x1 # xp) (y1 # fp) x)"
| "interp_from _ (y0 # _) x = y0"
| "interp_from _ [] x = NaN"

definition interp_point :: "nat list \<Rightarrow> npfloat list \<Rightarrow> nat \<Rightarrow> npfloat" where
  "interp_point xp fp x =
    (case (xp, fp) of
       (x0 # _, y0 # _) \<Rightarrow> if x < x0 then y0 else interp_from xp fp x
     | _ \<Rightarrow> NaN)"

definition np_interp :: "nat list \<Rightarrow> nat list \<Rightarrow> npfloat list \<Rightarrow> py_error + npfloat list" where
  "np_interp x xp fp =
    (if xp = [] then Inl (ValueError ''array of sample points is empty'')
     else if length fp \<noteq> length xp then Inl (ValueError ''fp and xp are not of the same length.'')
     else Inr (map (interp_point xp fp) x))"

section \<open>The quality filter (datahandling/average\_data.py)\<close>

text \<open>
  \<open>outliers_to_nans\<close>: the values above the upper percentile value or below the lower
  one become NaN.
\<close>

definition outliers_to_nans :: "npfloat list \<Rightarrow> real \<Rightarrow> real \<Rightarrow> py_error + npfloat list" where
  "outliers_to_nans data min_percentile max_percentile =
    (case percentile data min_percentile of
       Inl e \<Rightarrow> Inl e
     | Inr min_value \<Rightarrow>
        (case percentile data max_percentile of
           Inl e \<Rightarrow> Inl e
         | Inr max_value \<Rightarrow>
             Inr (map (\<lambda>v. if fgreater v max_value \<or> fless v min_value then NaN else v) data)))"

text \<open>
  \<open>interp_nans\<close>: \<open>x_array\<close> holds the indices of the data; the right-hand side of the
  assignment is evaluated first (and may raise), then its values are stored at the
  indices of the NaNs, in order.
\<close>

definition assign_at :: "npfloat list \<Rightarrow> nat list \<Rightarrow> npfloat list \<Rightarrow> npfloat list" where
  "assign_at data idx vals = fold (\<lambda>(i, v) d. d[i := v]) (zip idx vals) data"

definition interp_nans :: "npfloat list \<Rightarrow> py_error + npfloat list" where
  "interp_nans data =
    (let x_array = [0..<length data];
         is_nan = filter (\<lambda>i. isnan (data ! i)) x_array;
         is_not_nan = filter (\<lambda>i. \<not> isnan (data ! i)) x_array
     in case np_interp is_nan is_not_nan (map (\<lambda>i. data ! i) is_not_nan) of
          Inl e \<Rightarrow> Inl e
        | Inr vals \<Rightarrow> Inr (assign_at data is_nan vals))"

text \<open>
  The body of the loop of \<open>handle_outliers_interp\<close>, for one column: the outliers
  become NaN, then the NaNs are interpolated over.
\<close>

definition handle_outliers_interp_column ::
    "npfloat list \<Rightarrow> real \<Rightarrow> real \<Rightarrow> py_error + npfloat list" where
  "handle_outliers_interp_column column min_percentile max_percentile =
    (case outliers_to_nans column min_percentile max_percentile of
       Inl e \<Rightarrow> Inl e
     | Inr masked \<Rightarrow> interp_nans masked)"

section \<open>Tables\<close>

text \<open>
  A pandas data frame indexed by time: the timestamps of its rows (nanoseconds since
  the epoch) and its columns by name, each column holding one value per row. The
  tables of the program have at least one data column, so a table is empty when it has
  no row. A column of counts is a float column, as it is after the corrections.
\<close>

record dataframe =
  df_index :: "int list"
  df_columns :: "string \<rightharpoonup> npfloat list"

definition df_empty :: "dataframe \<Rightarrow> bool" where
  "df_empty data = (df_index data = [])"

text \<open>Running a loop body over a list stops at the first exception.\<close>

fun for_each :: "('a \<Rightarrow> 's \<Rightarrow> py_error + 's) \<Rightarrow> 'a list \<Rightarrow> 's \<Rightarrow> py_error + 's" where
  "for_each body [] s = Inr s"
| "for_each body (x # xs) s =
    (case body x s of Inl e \<Rightarrow> Inl e | Inr s' \<Rightarrow> for_each body xs s')"

subsection \<open>QC masking and outlier handling on a table\<close>

definition get_qc_dict :: "(string \<times> string) list" where
  "get_qc_dict =
    [(''CTS_MOD'', ''CTS_MOD_QCFLAG''),
     (''CTS_MOD2'', ''CTS_MOD2_QCFLAG''),
     (''CTS_BARE'', ''CTS_BARE_QCFLAG''),
     (''PA'', ''PA_QCFLAG''),
     (''Q'', ''Q_QCFLAG'')]"

text \<open>
  \<open>data[key] = data.mask(data[qc_dict[key]] > 0)[key]\<close>: the flag column is read
  first, then the data column; a sample whose flag is greater than zero becomes NaN.
\<close>

definition qc_mask_column :: "npfloat list \<Rightarrow> npfloat list \<Rightarrow> npfloat list" where
  "qc_mask_column flags column =
    map (\<lambda>(f, v). if fgreater f (Fin 0) then NaN else v) (zip flags column)"

definition qc_check_key :: "string \<times> string \<Rightarrow> dataframe \<Rightarrow> py_error + dataframe" where
  "qc_check_key kf data =
    (case df_columns data (snd kf) of
       None \<Rightarrow> Inl (KeyError (snd kf))
     | Some flags \<Rightarrow>
        (case df_columns data (fst kf) of
           None \<Rightarrow> Inl (KeyError (fst kf))
         | Some column \<Rightarrow>
             Inr (data\<lparr>df_columns := (df_columns data)(fst kf \<mapsto> qc_mask_column flags column)\<rparr>)))"

definition qc_check_data :: "dataframe \<Rightarrow> py_error + dataframe" where
  "qc_check_data data = for_each qc_check_key get_qc_dict data"

definition handle_outliers_interp_key ::
    "real \<Rightarrow> real \<Rightarrow> string \<Rightarrow> dataframe \<Rightarrow> py_error + dataframe" where
  "handle_outliers_interp_key min_percentile max_percentile key data =
    (case df_columns data key of
       None \<Rightarrow> Inl (KeyError key)
     | Some column \<Rightarrow>
        (case handle_outliers_interp_column column min_percentile max_percentile of
           Inl e \<Rightarrow> Inl e
         | Inr column' \<Rightarrow> Inr (data\<lparr>df_columns := (df_columns data)(key \<mapsto> column')\<rparr>)))"

definition handle_outliers_interp ::
    "dataframe \<Rightarrow> string list \<Rightarrow> real \<Rightarrow> real \<Rightarrow> py_error + dataframe" where
  "handle_outliers_interp data keys min_percentile max_percentile =
    for_each (handle_outliers_interp_key min_percentile max_percentile) keys data"

section \<open>The aggregator's statistics and the normalizer (datahandling/average\_data.py)\<close>

text \<open>
  An ensemble is a two-dimensional array, one row per station, all rows of one length.
  Reducing along axis 0 works on its columns.
\<close>

fun columns_of :: "'a list list \<Rightarrow> 'a list list" where
  "columns_of [] = []"
| "columns_of (r # rs) = map (\<lambda>j. map (\<lambda>row. row ! j) (r # rs)) [0..<length r]"

definition nansum_axis0 :: "npfloat list list \<Rightarrow> npfloat list" where
  "nansum_axis0 arr = map nansum (columns_of arr)"

definition count_not_nan_axis0 :: "npfloat list list \<Rightarrow> nat list" where
  "count_not_nan_axis0 arr = map count_not_nan (columns_of arr)"

definition average_key ::
    "(string \<rightharpoonup> npfloat list list) \<Rightarrow> string \<Rightarrow> (string \<rightharpoonup> npfloat list)
      \<Rightarrow> py_error + (string \<rightharpoonup> npfloat list)" where
  "average_key data_dict key average =
    (case data_dict key of
       None \<Rightarrow> Inl (KeyError key)
     | Some arr \<Rightarrow>
        (let summed = nansum_axis0 arr;
             num_not_nan = count_not_nan_axis0 arr;
             average1 = average(''E_'' @ key \<mapsto>
                          map (\<lambda>s. fmul (fdiv (fsqrt s) s) (Fin 100)) summed);
             average2 = average1(key \<mapsto>
                          map (\<lambda>(s, n). fdiv s (Fin (real n))) (zip summed num_not_nan))
         in Inr average2))"

definition average_each_key ::
    "(string \<rightharpoonup> npfloat list list) \<Rightarrow> string list \<Rightarrow> py_error + (string \<rightharpoonup> npfloat list)" where
  "average_each_key data_dict keys = for_each (average_key data_dict) keys Map.empty"

definition convert_to_rel_change :: "npfloat list \<Rightarrow> npfloat list" where
  "convert_to_rel_change data =
    (let data_mean = nanmean (take 48 data);
         change = map (\<lambda>v. fsub v data_mean) data;
         rel_change = map (\<lambda>c. fmul (fdiv c data_mean) (Fin 100)) change
     in rel_change)"

text \<open>
  Elementwise arithmetic of two one-dimensional arrays: equal lengths, or one of them
  of length one, which is broadcast; any other pair of lengths is a ValueError.
\<close>

definition elementwise ::
    "(npfloat \<Rightarrow> npfloat \<Rightarrow> npfloat) \<Rightarrow> npfloat list \<Rightarrow> npfloat list \<Rightarrow> py_error + npfloat list" where
  "elementwise f xs ys =
    (if length xs = length ys then Inr (map (\<lambda>(x, y). f x y) (zip xs ys))
     else case (xs, ys) of
       ([x], _) \<Rightarrow> Inr (map (f x) ys)
     | (_, [y]) \<Rightarrow> Inr (map (\<lambda>x. f x y) xs)
     | _ \<Rightarrow> Inl (ValueError ''operands could not be broadcast together''))"

definition normalise_std :: "npfloat list \<Rightarrow> npfloat list \<Rightarrow> py_error + npfloat list" where
  "normalise_std std_array data_array =
    (case elementwise fdiv std_array data_array of
       Inl e \<Rightarrow> Inl e
     | Inr q \<Rightarrow> Inr (map (\<lambda>v. fmul v (Fin 100)) q))"

definition rel_change_key ::
    "(string \<rightharpoonup> npfloat list) \<Rightarrow> string \<Rightarrow> (string \<rightharpoonup> npfloat list)
      \<Rightarrow> py_error + (string \<rightharpoonup> npfloat list)" where
  "rel_change_key data_dict key rel_change =
    (case data_dict key of
       None \<Rightarrow> Inl (KeyError key)
     | Some data \<Rightarrow>
        (let rel_change1 = rel_change(key \<mapsto> convert_to_rel_change data) in
           case data_dict (key @ ''_std'') of
             None \<Rightarrow> Inl (KeyError (key @ ''_std''))
           | Some std \<Rightarrow>
              (case normalise_std std data of
                 Inl e \<Rightarrow> Inl e
               | Inr normal_std \<Rightarrow> Inr (rel_change1(key @ ''_std'' \<mapsto> normal_std)))))"

definition dict_to_rel_change ::
    "(string \<rightharpoonup> npfloat list) \<Rightarrow> string list \<Rightarrow> py_error + (string \<rightharpoonup> npfloat list)" where
  "dict_to_rel_change data_dict keys = for_each (rel_change_key data_dict) keys Map.empty"

definition get_data_keys :: "string \<Rightarrow> py_error + string list" where
  "get_data_keys operator =
    (if ''COSMOS-US'' = operator then Inr [''MOD'', ''UNMO'']
     else if ''COSMOS-UK'' = operator then Inr [''CTS_MOD'']
     else if ''NMDB'' = operator then Inr [''counts'']
     else Inl (KeyError (operator @ '' is not a valid operator'')))"

definition get_error_keys :: "string \<Rightarrow> py_error + string list" where
  "get_error_keys operator =
    (if ''COSMOS-US'' = operator then Inr [''E_MOD'', ''E_UNMO'']
     else if ''COSMOS-UK'' = operator then Inr [''E_CTS_MOD'']
     else Inl (KeyError (operator @ '' is not a valid operator'')))"

section \<open>The importer (datahandling/import\_data.py)\<close>

text \<open>
  The pandas operations that read a file or resample a table, and the parser of a
  duration text, are parameters of the model: the program's functions are modelled for
  every behaviour of theirs. \<open>pd_Timedelta\<close> gives a duration in nanoseconds;
  \<open>pd_read_table\<close> gives the parsed table of a file, the values of its date column as
  the row timestamps, in the order of the file.
\<close>

record pandas =
  pd_Timedelta :: "string \<Rightarrow> py_error + int"
  pd_read_table :: "string \<Rightarrow> string \<Rightarrow> nat list list \<Rightarrow> py_error + dataframe"
  pd_resample_nearest :: "dataframe \<Rightarrow> string \<Rightarrow> py_error + dataframe"
  pd_resample_agg :: "dataframe \<Rightarrow> string \<Rightarrow> (string \<times> string) list \<Rightarrow> py_error + dataframe"

record import_dict =
  date_key :: string
  ind :: "nat list list"
  separator :: string

definition set_keys_and_parser :: "string \<Rightarrow> py_error + import_dict" where
  "set_keys_and_parser operator =
    (if operator = ''COSMOS-UK'' then
       Inr \<lparr>date_key = ''DATE_TIME'', ind = [[2]], separator = '',''\<rparr>
     else if operator = ''COSMOS-US'' then
       Inr \<lparr>date_key = ''Date_Time'', ind = [[0, 1]], separator = CHR 0x5C # ''s+''\<rparr>
     else if operator = ''NMDB'' then
       Inr \<lparr>date_key = ''DateTime'', ind = [[0]], separator = '';''\<rparr>
     else if operator = ''COSMOS-Av'' then
       Inr \<lparr>date_key = ''Time'', ind = [[0]], separator = '',''\<rparr>
     else Inl (KeyError ''%s is an invalid operator''))"

text \<open>
  \<open>date_valid\<close> reads the first and the last timestamp of the table; on a table with
  no row that read is an IndexError.
\<close>

definition date_valid :: "dataframe \<Rightarrow> int \<Rightarrow> int \<Rightarrow> py_error + bool" where
  "date_valid data start_date stop_date =
    (case df_index data of
       [] \<Rightarrow> Inl (IndexError ''index 0 is out of bounds for axis 0 with size 0'')
     | t # ts \<Rightarrow>
        if t \<le> start_date \<and> last (t # ts) \<ge> stop_date then Inr True else Inr False)"

text \<open>
  \<open>data[start_date:stop_date]\<close> on a table indexed by time, its index sorted: slicing by
  labels keeps the rows whose timestamp lies between the two labels, both included.
\<close>

definition rows_where :: "(int \<Rightarrow> bool) \<Rightarrow> dataframe \<Rightarrow> dataframe" where
  "rows_where keep data =
    data\<lparr>df_index := filter keep (df_index data),
         df_columns := map_option (\<lambda>column. map snd (filter (\<lambda>(t, v). keep t) (zip (df_index data) column)))
                         \<circ> df_columns data\<rparr>"

definition slice_labels :: "dataframe \<Rightarrow> int \<Rightarrow> int \<Rightarrow> dataframe" where
  "slice_labels data start_date stop_date =
    rows_where (\<lambda>t. start_date \<le> t \<and> t \<le> stop_date) data"

definition slice_data_for_dates :: "dataframe \<Rightarrow> int \<Rightarrow> int \<Rightarrow> py_error + dataframe \<times> bool" where
  "slice_data_for_dates data start stop =
    (let start_date = start; stop_date = stop in
       case date_valid data start stop of
         Inl e \<Rightarrow> Inl e
       | Inr ok \<Rightarrow>
          if ok then
            (let sliced_data = slice_labels data start_date stop_date in
               if df_empty sliced_data then Inr (data, False) else Inr (sliced_data, True))
          else Inr (data, False))"

text \<open>\<open>data.sort_values\<close>: the rows in the order of their timestamps.\<close>

definition sort_values :: "dataframe \<Rightarrow> dataframe" where
  "sort_values data =
    (let order = sort_key (\<lambda>i. df_index data ! i) [0..<length (df_index data)] in
       data\<lparr>df_index := map (\<lambda>i. df_index data ! i) order,
            df_columns := map_option (\<lambda>column. map (\<lambda>i. column ! i) order) \<circ> df_columns data\<rparr>)"

text \<open>
  \<open>import_neutron_data\<close>: the window is optional; \<open>start\<close> and \<open>stop\<close> are given
  together.
\<close>

definition import_neutron_data ::
    "pandas \<Rightarrow> string \<Rightarrow> string \<Rightarrow> (int \<times> int) option \<Rightarrow> py_error + dataframe \<times> bool" where
  "import_neutron_data pd filename operator window =
    (case set_keys_and_parser operator of
       Inl e \<Rightarrow> Inl e
     | Inr import_dict \<Rightarrow>
        (case pd_read_table pd filename (separator import_dict) (ind import_dict) of
           Inl e \<Rightarrow> Inl e
         | Inr table \<Rightarrow>
            (let data = sort_values table in
               if df_empty data then Inr (data, False)
               else case window of
                      Some (start, stop) \<Rightarrow> slice_data_for_dates data start stop
                    | None \<Rightarrow> Inr (data, True))))"

section \<open>The resampler (datahandling/average\_data.py)\<close>

text \<open>
  Python orders strings by their characters' code points, the first difference
  deciding, a proper prefix before the longer string.
\<close>

fun str_less :: "string \<Rightarrow> string \<Rightarrow> bool" where
  "str_less [] [] = False"
| "str_less [] (b # bs) = True"
| "str_less (a # as) [] = False"
| "str_less (a # as) (b # bs) =
    (if (of_char a :: nat) < of_char b then True
     else if (of_char b :: nat) < of_char a then False
     else str_less as bs)"

definition str_greater :: "string \<Rightarrow> string \<Rightarrow> bool" where
  "str_greater a b = str_less b a"

text \<open>
  \<open>is_multiple\<close>: the remainder of two durations; a zero divisor is a
  ZeroDivisionError. \<open>pd.Timedelta('0T')\<close> is the zero duration.
\<close>

definition is_multiple :: "int \<Rightarrow> int \<Rightarrow> py_error + bool" where
  "is_multiple large_td small_td =
    (if small_td = 0 then Inl (ZeroDivisionError ''integer modulo by zero'')
     else Inr (large_td mod small_td = 0))"

text \<open>
  \<open>get_resampler_dict\<close>: for an operator that is none of the three, \<open>ret_dict\<close> is read
  before it is assigned.
\<close>

definition get_resampler_dict :: "string \<Rightarrow> py_error + (string \<times> string) list" where
  "get_resampler_dict operator =
    (if operator = ''NMDB'' then Inr [(''counts'', ''sum'')]
     else if operator = ''COSMOS-US'' then
       Inr [(''MOD'', ''sum''), (''UNMO'', ''sum''), (''PRESS'', ''mean''),
            (''TEM'', ''mean''), (''RH'', ''mean''), (''BATT'', ''mean'')]
     else if operator = ''COSMOS-UK'' then
       Inr [(''CTS_MOD'', ''sum''), (''CTS_MOD2'', ''sum''), (''CTS_BARE'', ''sum''),
            (''PA'', ''mean''), (''Q'', ''mean''), (''CTS_MOD_QCFLAG'', ''sum''),
            (''CTS_MOD2_QCFLAG'', ''sum''), (''CTS_BARE_QCFLAG'', ''sum''),
            (''PA_QCFLAG'', ''sum''), (''Q_QCFLAG'', ''sum'')]
     else Inl (UnboundLocalError ''ret_dict''))"

text \<open>
  \<open>resample_data\<close>: the two cadences are compared for equality as durations, and for
  order as the texts they were given as.
\<close>

definition resample_data ::
    "pandas \<Rightarrow> dataframe \<Rightarrow> string \<Rightarrow> string \<Rightarrow> string \<Rightarrow> py_error + dataframe" where
  "resample_data pd data operator original_frequency new_frequency =
    (case pd_Timedelta pd original_frequency of
       Inl e \<Rightarrow> Inl e
     | Inr original_frequency_td \<Rightarrow>
        (case pd_Timedelta pd new_frequency of
           Inl e \<Rightarrow> Inl e
         | Inr new_frequency_td \<Rightarrow>
            if original_frequency_td = new_frequency_td then
              pd_resample_nearest pd data new_frequency
            else if str_greater new_frequency original_frequency then
              (case is_multiple new_frequency_td original_frequency_td of
                 Inl e \<Rightarrow> Inl e
               | Inr multiple \<Rightarrow>
                  if multiple then
                    (case get_resampler_dict operator of
                       Inl e \<Rightarrow> Inl e
                     | Inr resampler_dict \<Rightarrow> pd_resample_agg pd data new_frequency resampler_dict)
                  else Inl (ValueError ''New frequency must be a multiple of the original frequency''))
            else Inl (ValueError ''New frequency must be = n * original frequency for n an int > 0'')))"

section \<open>The aggregator's run (datahandling/average\_data.py)\<close>

text \<open>
  \<open>check_path_exists\<close>: \<open>path_exists\<close> is \<open>os.path.exists\<close>, the file system not
  changing while the loop runs; \<open>user_input\<close> gives the text the user types at the
  \<open>i\<close>-th prompt. The loop may run forever: the result \<open>None\<close> is a run that does not
  end, \<open>Some (Inl (SystemExit 2))\<close> the call of \<open>exit(2)\<close>, \<open>Some (Inr p)\<close> the return
  of the path \<open>p\<close>.
\<close>

partial_function (option) check_path_loop ::
    "(string \<Rightarrow> bool) \<Rightarrow> (nat \<Rightarrow> string) \<Rightarrow> string \<Rightarrow> string \<Rightarrow> nat \<Rightarrow> (py_error + string) option" where
  "check_path_loop path_exists user_input path ret_path i =
    (if path_exists path then Some (Inr ret_path)
     else (let ret_path' = user_input i in
             if path = ''exit'' then Some (Inl (SystemExit 2))
             else check_path_loop path_exists user_input path ret_path' (Suc i)))"

definition check_path_exists ::
    "(string \<Rightarrow> bool) \<Rightarrow> (nat \<Rightarrow> string) \<Rightarrow> string \<Rightarrow> (py_error + string) option" where
  "check_path_exists path_exists user_input path =
    check_path_loop path_exists user_input path path 0"

record other_keys =
  meta_sep :: string
  name_column :: string
  length_mod :: int
  extension :: string

text \<open>\<open>get_other_keys\<close>: for another operator the dictionary is empty (\<open>None\<close>).\<close>

definition get_other_keys :: "string \<Rightarrow> other_keys option" where
  "get_other_keys operator =
    (if ''COSMOS-US'' = operator then
       Some \<lparr>meta_sep = [CHR 0x09], name_column = ''SiteName'', length_mod = 0, extension = ''.txt''\<rparr>
     else if ''COSMOS-UK'' = operator then
       Some \<lparr>meta_sep = '','', name_column = ''SITE_ID'', length_mod = 1, extension = ''.csv''\<rparr>
     else None)"

definition fle :: "npfloat \<Rightarrow> npfloat \<Rightarrow> bool" where
  "fle x y = (\<not> isnan x \<and> \<not> isnan y \<and> \<not> fless y x)"

text \<open>
  One pass of the loop over the stations (lines 46 to 83), for the station \<open>(name,
  rigidity)\<close> of the metadata table. The pass ends with \<open>continue\<close> (the station is
  skipped) or with an exception. A station that is not skipped reaches the call
  \<open>coscal.apply_corrections\<close>; the module imports the function \<open>apply_corrections\<close> by
  \<open>from coscal.correct_data import apply_corrections\<close> and binds no name \<open>coscal\<close>, so
  the call is a NameError, and the lines after it are never run.
\<close>

datatype pass = Continue | Raise py_error

definition station_pass ::
    "pandas \<Rightarrow> string \<Rightarrow> int \<Rightarrow> int \<Rightarrow> npfloat \<times> npfloat \<Rightarrow> string \<Rightarrow> string \<Rightarrow> string list
      \<Rightarrow> other_keys \<Rightarrow> real \<Rightarrow> string \<times> npfloat \<Rightarrow> pass" where
  "station_pass pd operator start_date stop_date rigidity_range original_frequency new_frequency
      excluded_stations other_keys len station =
    (let name = fst station in
     if name \<in> set excluded_stations then Continue
     else
       (let filename = name @ extension other_keys;
            rigidity = snd station
        in if \<not> (fle (fst rigidity_range) rigidity \<and> fle rigidity (snd rigidity_range)) then Continue
           else case import_neutron_data pd filename operator (Some (start_date, stop_date)) of
                  Inl e \<Rightarrow> Raise e
                | Inr (station_data, valid) \<Rightarrow>
                   if valid \<and> \<not> df_empty station_data then
                     (case resample_data pd station_data operator original_frequency new_frequency of
                        Inl e \<Rightarrow> Raise e
                      | Inr resampled \<Rightarrow>
                         if real (length (df_index resampled)) \<noteq> len then Continue
                         else case (if ''COSMOS-UK'' = operator then qc_check_data resampled
                                    else Inr resampled) of
                                Inl e \<Rightarrow> Raise e
                              | Inr checked \<Rightarrow> Raise (NameError ''coscal''))
                   else Continue))"

fun station_loop :: "((string \<times> npfloat) \<Rightarrow> pass) \<Rightarrow> (string \<times> npfloat) list \<Rightarrow> pass" where
  "station_loop body [] = Continue"
| "station_loop body (station # stations) =
    (case body station of
       Raise e \<Rightarrow> Raise e
     | Continue \<Rightarrow> station_loop body stations)"

text \<open>
  \<open>average_neutron_data\<close>, from the point where the metadata table has been read:
  \<open>station_info\<close> holds its rows, the name and the cutoff rigidity of each station. The
  variables \<open>all_data\<close> and \<open>index\<close> are assigned only in the lines of the loop that
  follow the call of \<open>coscal.apply_corrections\<close>; after a loop that skipped every
  station, \<open>all_data\<close> is read unassigned at line 85.
\<close>

definition average_neutron_data ::
    "pandas \<Rightarrow> (string \<times> npfloat) list \<Rightarrow> string \<Rightarrow> int \<Rightarrow> int \<Rightarrow> npfloat \<times> npfloat \<Rightarrow> string \<Rightarrow> string
      \<Rightarrow> string list \<Rightarrow> py_error + dataframe \<times> (string list \<times> npfloat list)" where
  "average_neutron_data pd station_info operator start_date stop_date rigidity_range
      original_frequency new_frequency excluded_stations =
    (case get_other_keys operator of
       None \<Rightarrow> Inl (KeyError ''meta_sep'')
     | Some other_keys \<Rightarrow>
        (case get_data_keys operator of
           Inl e \<Rightarrow> Inl e
         | Inr data_keys \<Rightarrow>
            (case get_error_keys operator of
               Inl e \<Rightarrow> Inl e
             | Inr error_keys \<Rightarrow>
                (case pd_Timedelta pd new_frequency of
                   Inl e \<Rightarrow> Inl e
                 | Inr new_frequency_td \<Rightarrow>
                    if new_frequency_td = 0 then Inl (ZeroDivisionError ''division by zero'')
                    else
                      (let len = real_of_int (stop_date - start_date) / real_of_int new_frequency_td
                                   + real_of_int (length_mod other_keys)
                       in case station_loop
                                 (station_pass pd operator start_date stop_date rigidity_range
                                    original_frequency new_frequency excluded_stations other_keys len)
                                 station_info of
                            Raise e \<Rightarrow> Inl e
                          | Continue \<Rightarrow> Inl (UnboundLocalError ''all_data''))))))"

section \<open>The specification's formulas\<close>


text \<open>
  The Combine step as the specification words it, at the timestamp \<open>j\<close> of an ensemble:
  the mean is the sum of the station values that are not missing over their number,
  the Poisson percentage error is \<open>sqrt(sum) / sum * 100\<close> of that sum.
\<close>

definition column_at :: "npfloat list list \<Rightarrow> nat \<Rightarrow> npfloat list" where
  "column_at arr j = map (\<lambda>row. row ! j) arr"

definition combined_mean_at :: "npfloat list list \<Rightarrow> nat \<Rightarrow> npfloat" where
  "combined_mean_at arr j =
    fdiv (nansum (column_at arr j)) (Fin (real (count_not_nan (column_at arr j))))"

definition poisson_error_at :: "npfloat list list \<Rightarrow> nat \<Rightarrow> npfloat" where
  "poisson_error_at arr j =
    fmul (fdiv (fsqrt (nansum (column_at arr j))) (nansum (column_at arr j))) (Fin 100)"

text \<open>
  A series lies within its own percentile values when it has no missing value and none
  of its values is above the upper percentile value or below the lower one, both
  computed from the series itself. The columns of a table are settled when each of the
  given columns is there and lies within its own percentile values.
\<close>

definition within_own_percentiles :: "real \<Rightarrow> real \<Rightarrow> npfloat list \<Rightarrow> bool" where
  "within_own_percentiles lo hi y =
    (case (percentile y lo, percentile y hi) of
       (Inr a, Inr b) \<Rightarrow> list_all (\<lambda>v. \<not> isnan v \<and> \<not> fgreater v b \<and> \<not> fless v a) y
     | _ \<Rightarrow> False)"

definition columns_settled :: "real \<Rightarrow> real \<Rightarrow> string list \<Rightarrow> dataframe \<Rightarrow> bool" where
  "columns_settled lo hi keys data =
    list_all (\<lambda>key. case df_columns data key of
                       Some y \<Rightarrow> within_own_percentiles lo hi y
                     | None \<Rightarrow> False) keys"

text \<open>
  An instance of the pandas operations, for the examples: it parses the two cadence
  texts of the examples and finds no file.
\<close>

definition pandas_example :: pandas where
  "pandas_example =
    \<lparr>pd_Timedelta = (\<lambda>s. if s = ''3600s'' then Inr 3600000000000
                          else if s = ''10800s'' then Inr 10800000000000
                          else Inl (ValueError ''unit abbreviation w/o a number'')),
     pd_read_table = (\<lambda>filename sep dates. Inl (IOError filename)),
     pd_resample_nearest = (\<lambda>data frequency. Inr data),
     pd_resample_agg = (\<lambda>data frequency reducers. Inr data)\<rparr>"

section \<open>Properties of the correction engine\<close>


section \<open>Properties of the pressure correction\<close>

subsection \<open>Evaluating the rounding\<close>

lemma find_exponent_eq:
  "2 powi e \<le> a \<Longrightarrow> a < 2 powi (e + 1) \<Longrightarrow> \<bar>e - e0\<bar> \<le> int k \<Longrightarrow> find_exponent k e0 a = e"
proof (induction k arbitrary: e0)
  case 0
  then show ?case by simp
next
  case (Suc k)
  show ?case
  proof (cases "a < 2 powi e0")
    case True
    have "e < e0"
    proof (rule ccontr)
      assume "\<not> e < e0"
      then have "(2::real) powi e0 \<le> 2 powi e" by (intro power_int_increasing) auto
      with True Suc.prems(1) show False by simp
    qed
    then have "\<bar>e - (e0 - 1)\<bar> \<le> int k" using Suc.prems(3) by simp
    then show ?thesis using True Suc.IH [OF Suc.prems(1,2)] by simp
  next
    case False
    show ?thesis
    proof (cases "2 powi (e0 + 1) \<le> a")
      case True
      have "e0 < e"
      proof (rule ccontr)
        assume "\<not> e0 < e"
        then have "(2::real) powi (e + 1) \<le> 2 powi (e0 + 1)" by (intro power_int_increasing) auto
        with True Suc.prems(2) show False by simp
      qed
      then have "\<bar>e - (e0 + 1)\<bar> \<le> int k" using Suc.prems(3) by simp
      then show ?thesis using True False Suc.IH [OF Suc.prems(1,2)] by simp
    next
      case F2: False
      have "e = e0"
      proof (rule ccontr)
        assume ne: "e \<noteq> e0"
        show False
        proof (cases "e < e0")
          case True
          then have "(2::real) powi (e + 1) \<le> 2 powi e0" by (intro power_int_increasing) auto
          with False Suc.prems(2) show False by simp
        next
          case False
          with ne have "e0 + 1 \<le> e" by simp
          then have "(2::real) powi (e0 + 1) \<le> 2 powi e" by (intro power_int_increasing) auto
          with F2 Suc.prems(1) show False by simp
        qed
      qed
      then show ?thesis using False F2 by simp
    qed
  qed
qed

lemma binade_eq:
  assumes "2 powi e \<le> \<bar>x\<bar>" and "\<bar>x\<bar> < 2 powi (e + 1)" and "- 1022 \<le> e" and "e \<le> 1100"
  shows "binade x = e"
proof -
  have "\<bar>e - 0\<bar> \<le> int 2200" using assms(3,4) by simp
  then have "find_exponent 2200 0 \<bar>x\<bar> = e" by (rule find_exponent_eq [OF assms(1,2)])
  then show ?thesis using assms(3) by (simp add: binade_def)
qed

lemma dbl_eval:
  assumes "2 powi e \<le> \<bar>x\<bar>" and "\<bar>x\<bar> < 2 powi (e + 1)" and "- 1022 \<le> e" and "e \<le> 1100"
  shows "dbl x =
    (let q = 2 powi (e - 52);
         y = of_int (round_half_even (x / q)) * q
     in if 2 powi 1024 \<le> \<bar>y\<bar> then (if 0 < y then PInf else NInf) else Fin y)"
  by (simp add: dbl_def binade_eq [OF assms])

lemma dbl_zero: "dbl 0 = Fin 0"
  by (simp add: dbl_def round_half_even_def Let_def)

lemma dbl_one: "dbl 1 = Fin 1"
  by (simp add: dbl_eval [where e = 0] round_half_even_def Let_def)

lemma round_half_even_eq:
  assumes "of_int n - 1 / 2 < z" and "z < of_int n + 1 / 2"
  shows "round_half_even z = n"
proof -
  have "\<lfloor>z\<rfloor> = n \<or> \<lfloor>z\<rfloor> = n - 1" using assms by linarith
  then show ?thesis
  proof
    assume f: "\<lfloor>z\<rfloor> = n"
    then have "z - of_int n < 1 / 2" using assms by linarith
    then show ?thesis using f by (simp add: round_half_even_def Let_def)
  next
    assume f: "\<lfloor>z\<rfloor> = n - 1"
    then have "1 / 2 < z - of_int (n - 1)" using assms by simp
    then show ?thesis using f by (simp add: round_half_even_def Let_def)
  qed
qed


subsection \<open>The run on the sample 987.3, three times, at the rigidity 3\<close>

text \<open>
  The operations of the run, one rounding each: the constants of the attenuation length,
  the mean of the three samples (987.2999999999998, one unit in the last place below
  the sample), the difference of the sample and the mean (\<open>2^-43\<close>), the attenuation
  length at the mean, and their product.
\<close>

lemma lit_c_0:
  "lit 5.4196 = Fin (6101927135124285 / 1125899906842624)"
  by (simp add: lit_def dbl_eval [where e = "2"] round_half_even_def Let_def)

lemma ten_to_minus_3:
  "int_pow_float 10 (- 3) = Fin (1152921504606847 / 1152921504606846976)"
  by (simp add: int_pow_float_def power_int_minus dbl_eval [where e = "- 10"] round_half_even_def Let_def)

lemma c_0_double:
  "dmul (Fin (6101927135124285 / 1125899906842624)) (Fin (1152921504606847 / 1152921504606846976)) = Fin (1562093346591817 / 288230376151711744)"
  by (simp add: dmul_def dbl_eval [where e = "- 8"] round_half_even_def Let_def)

lemma lit_c_1:
  "lit 2.2082 = Fin (4972424348579765 / 2251799813685248)"
  by (simp add: lit_def dbl_eval [where e = "1"] round_half_even_def Let_def)

lemma ten_to_minus_4:
  "int_pow_float 10 (- 4) = Fin (7378697629483821 / 73786976294838206464)"
  by (simp add: int_pow_float_def power_int_minus dbl_eval [where e = "- 14"] round_half_even_def Let_def)

lemma c_1_double:
  "dmul (Fin (4972424348579765 / 2251799813685248)) (Fin (7378697629483821 / 73786976294838206464)) = Fin (8146820052713087 / 36893488147419103232)"
  by (simp add: dmul_def dbl_eval [where e = "- 13"] round_half_even_def Let_def)

lemma lit_c_2:
  "lit 5.1952 = Fin (45697462468975 / 8796093022208)"
  by (simp add: lit_def dbl_eval [where e = "2"] round_half_even_def Let_def)

lemma ten_to_minus_7:
  "int_pow_float 10 (- 7) = Fin (944473296573929 / 9444732965739290427392)"
  by (simp add: int_pow_float_def power_int_minus dbl_eval [where e = "- 24"] round_half_even_def Let_def)

lemma c_2_double:
  "dmul (Fin (- (45697462468975 / 8796093022208))) (Fin (944473296573929 / 9444732965739290427392)) = Fin (- (1226681917590219 / 2361183241434822606848))"
  by (simp add: dmul_def dbl_eval [where e = "- 21"] round_half_even_def Let_def)

lemma lit_c_3:
  "lit 7.2062 = Fin (8113459908689317 / 1125899906842624)"
  by (simp add: lit_def dbl_eval [where e = "2"] round_half_even_def Let_def)

lemma ten_to_minus_6:
  "int_pow_float 10 (- 6) = Fin (4722366482869645 / 4722366482869645213696)"
  by (simp add: int_pow_float_def power_int_minus dbl_eval [where e = "- 20"] round_half_even_def Let_def)

lemma c_3_double:
  "dmul (Fin (8113459908689317 / 1125899906842624)) (Fin (4722366482869645 / 4722366482869645213696)) = Fin (8507579337213809 / 1180591620717411303424)"
  by (simp add: dmul_def dbl_eval [where e = "- 18"] round_half_even_def Let_def)

lemma lit_c_4:
  "lit 1.9702 = Fin (8872991985845351 / 4503599627370496)"
  by (simp add: lit_def dbl_eval [where e = "0"] round_half_even_def Let_def)

lemma c_4_double:
  "dmul (Fin (- (8872991985845351 / 4503599627370496))) (Fin (4722366482869645 / 4722366482869645213696)) = Fin (- (4652003222274887 / 2361183241434822606848))"
  by (simp add: dmul_def dbl_eval [where e = "- 19"] round_half_even_def Let_def)

lemma lit_c_5:
  "lit 9.8334 = Fin (5535712071973129 / 562949953421312)"
  by (simp add: lit_def dbl_eval [where e = "3"] round_half_even_def Let_def)

lemma ten_to_minus_9:
  "int_pow_float 10 (- 9) = Fin (4835703278458517 / 4835703278458516698824704)"
  by (simp add: int_pow_float_def power_int_minus dbl_eval [where e = "- 30"] round_half_even_def Let_def)

lemma c_5_double:
  "dmul (Fin (- (5535712071973129 / 562949953421312))) (Fin (4835703278458517 / 4835703278458516698824704)) = Fin (- (5943925577299247 / 604462909807314587353088))"
  by (simp add: dmul_def dbl_eval [where e = "- 27"] round_half_even_def Let_def)

lemma lit_c_6:
  "lit 3.4201 = Fin (7701380542784917 / 2251799813685248)"
  by (simp add: lit_def dbl_eval [where e = "1"] round_half_even_def Let_def)

lemma c_6_double:
  "dmul (Fin (7701380542784917 / 2251799813685248)) (Fin (4835703278458517 / 4835703278458516698824704)) = Fin (8269294391327987 / 2417851639229258349412352)"
  by (simp add: dmul_def dbl_eval [where e = "- 29"] round_half_even_def Let_def)

lemma lit_c_7:
  "lit 4.9898 = Fin (5618015355163325 / 1125899906842624)"
  by (simp add: lit_def dbl_eval [where e = "2"] round_half_even_def Let_def)

lemma ten_to_minus_12:
  "int_pow_float 10 (- 12) = Fin (4951760157141521 / 4951760157141521099596496896)"
  by (simp add: int_pow_float_def power_int_minus dbl_eval [where e = "- 40"] round_half_even_def Let_def)

lemma c_7_double:
  "dmul (Fin (5618015355163325 / 1125899906842624)) (Fin (4951760157141521 / 4951760157141521099596496896)) = Fin (3088536604013095 / 618970019642690137449562112)"
  by (simp add: dmul_def dbl_eval [where e = "- 38"] round_half_even_def Let_def)

lemma lit_c_8:
  "lit 1.7192 = Fin (7742588479375357 / 4503599627370496)"
  by (simp add: lit_def dbl_eval [where e = "0"] round_half_even_def Let_def)

lemma c_8_double:
  "dmul (Fin (- (7742588479375357 / 4503599627370496))) (Fin (4951760157141521 / 4951760157141521099596496896)) = Fin (- (8513066062157703 / 4951760157141521099596496896))"
  by (simp add: dmul_def dbl_eval [where e = "- 40"] round_half_even_def Let_def)

lemma sum_1:
  "dadd (Fin 0) (Fin (4342191320412979 / 4398046511104)) = Fin (4342191320412979 / 4398046511104)"
  by (simp add: dadd_def dbl_eval [where e = "9"] round_half_even_def Let_def)

lemma sum_2:
  "dadd (Fin (4342191320412979 / 4398046511104)) (Fin (4342191320412979 / 4398046511104)) = Fin (4342191320412979 / 2199023255552)"
  by (simp add: dadd_def dbl_eval [where e = "10"] round_half_even_def Let_def)

lemma sum_3:
  "dadd (Fin (4342191320412979 / 2199023255552)) (Fin (4342191320412979 / 4398046511104)) = Fin (1628321745154867 / 549755813888)"
  by (simp add: dadd_def dbl_eval [where e = "11"] round_half_even_def Let_def)

lemma mean_3:
  "ddiv (Fin (1628321745154867 / 549755813888)) (Fin 3) = Fin (8684382640825957 / 8796093022208)"
  by (simp add: ddiv_def dbl_eval [where e = "9"] round_half_even_def Let_def)

lemma diff_3:
  "dsub (Fin (4342191320412979 / 4398046511104)) (Fin (8684382640825957 / 8796093022208)) = Fin (1 / 8796093022208)"
  by (simp add: dsub_def fsub_def dbl_eval [where e = "- 43"] round_half_even_def Let_def)

lemma sum2_1:
  "dadd (Fin 0) (Fin (8684382640825957 / 8796093022208)) = Fin (8684382640825957 / 8796093022208)"
  by (simp add: dadd_def dbl_eval [where e = "9"] round_half_even_def Let_def)

lemma sum2_2:
  "dadd (Fin (8684382640825957 / 8796093022208)) (Fin (8684382640825957 / 8796093022208)) = Fin (8684382640825957 / 4398046511104)"
  by (simp add: dadd_def dbl_eval [where e = "10"] round_half_even_def Let_def)

lemma mean_2:
  "ddiv (Fin (8684382640825957 / 4398046511104)) (Fin 2) = Fin (8684382640825957 / 8796093022208)"
  by (simp add: ddiv_def dbl_eval [where e = "9"] round_half_even_def Let_def)

lemma lit_0981:
  "lit 0.981 = Fin (8836062468900913 / 9007199254740992)"
  by (simp add: lit_def dbl_eval [where e = "- 1"] round_half_even_def Let_def)

lemma depth_double:
  "dmul (Fin (8684382640825957 / 8796093022208)) (Fin (8836062468900913 / 9007199254740992)) = Fin (1064922421331283 / 1099511627776)"
  by (simp add: dmul_def dbl_eval [where e = "9"] round_half_even_def Let_def)

lemma c_1_r:
  "dmul (Fin (8146820052713087 / 36893488147419103232)) (Fin 3) = Fin (6110115039534815 / 9223372036854775808)"
  by (simp add: dmul_def dbl_eval [where e = "- 11"] round_half_even_def Let_def)

lemma r_squared:
  "dpow (Fin 3) 2 = Fin 9"
  by (simp add: dpow_def numeral_2_eq_2 numeral_3_eq_3 dbl_eval [where e = "3"] round_half_even_def Let_def)

lemma c_2_r2:
  "dmul (Fin (- (1226681917590219 / 2361183241434822606848))) (Fin 9) = Fin (- (2760034314577993 / 590295810358705651712))"
  by (simp add: dmul_def dbl_eval [where e = "- 18"] round_half_even_def Let_def)

lemma c_4_r:
  "dmul (Fin (- (4652003222274887 / 2361183241434822606848))) (Fin 3) = Fin (- (3489002416706165 / 590295810358705651712))"
  by (simp add: dmul_def dbl_eval [where e = "- 18"] round_half_even_def Let_def)

lemma c_3_c_4_r:
  "dadd (Fin (8507579337213809 / 1180591620717411303424)) (Fin (- (3489002416706165 / 590295810358705651712))) = Fin (1529574503801479 / 1180591620717411303424)"
  by (simp add: dadd_def dbl_eval [where e = "- 20"] round_half_even_def Let_def)

lemma term_3:
  "dmul (Fin (1529574503801479 / 1180591620717411303424)) (Fin (1064922421331283 / 1099511627776)) = Fin (5786937806088825 / 4611686018427387904)"
  by (simp add: dmul_def dbl_eval [where e = "- 10"] round_half_even_def Let_def)

lemma c_6_r:
  "dmul (Fin (8269294391327987 / 2417851639229258349412352)) (Fin 3) = Fin (3100985396747995 / 302231454903657293676544)"
  by (simp add: dmul_def dbl_eval [where e = "- 27"] round_half_even_def Let_def)

lemma c_5_c_6_r:
  "dadd (Fin (- (5943925577299247 / 604462909807314587353088))) (Fin (3100985396747995 / 302231454903657293676544)) = Fin (258045216196743 / 604462909807314587353088)"
  by (simp add: dadd_def dbl_eval [where e = "- 32"] round_half_even_def Let_def)

lemma depth_squared:
  "dpow (Fin (1064922421331283 / 1099511627776)) 2 = Fin (1007247408550145 / 1073741824)"
  by (simp add: dpow_def numeral_2_eq_2 numeral_3_eq_3 dbl_eval [where e = "19"] round_half_even_def Let_def)

lemma term_4:
  "dmul (Fin (258045216196743 / 604462909807314587353088)) (Fin (1007247408550145 / 1073741824)) = Fin (7387239273354319 / 18446744073709551616)"
  by (simp add: dmul_def dbl_eval [where e = "- 12"] round_half_even_def Let_def)

lemma c_8_r:
  "dmul (Fin (- (8513066062157703 / 4951760157141521099596496896))) (Fin 3) = Fin (- (6384799546618277 / 1237940039285380274899124224))"
  by (simp add: dmul_def dbl_eval [where e = "- 38"] round_half_even_def Let_def)

lemma c_7_c_8_r:
  "dadd (Fin (3088536604013095 / 618970019642690137449562112)) (Fin (- (6384799546618277 / 1237940039285380274899124224))) = Fin (- (207726338592087 / 1237940039285380274899124224))"
  by (simp add: dadd_def dbl_eval [where e = "- 43"] round_half_even_def Let_def)

lemma depth_cubed:
  "dpow (Fin (1064922421331283 / 1099511627776)) 3 = Fin (952696010252723 / 1048576)"
  by (simp add: dpow_def numeral_2_eq_2 numeral_3_eq_3 dbl_eval [where e = "29"] round_half_even_def Let_def)

lemma term_5:
  "dmul (Fin (- (207726338592087 / 1237940039285380274899124224))) (Fin (952696010252723 / 1048576)) = Fin (- (1406164457770043 / 9223372036854775808))"
  by (simp add: dmul_def dbl_eval [where e = "- 13"] round_half_even_def Let_def)

lemma beta_1:
  "dadd (Fin (1562093346591817 / 288230376151711744)) (Fin (6110115039534815 / 9223372036854775808)) = Fin (27391163149645 / 4503599627370496)"
  by (simp add: dadd_def dbl_eval [where e = "- 8"] round_half_even_def Let_def)

lemma beta_2:
  "dadd (Fin (27391163149645 / 4503599627370496)) (Fin (- (2760034314577993 / 590295810358705651712))) = Fin (1751686768572115 / 288230376151711744)"
  by (simp add: dadd_def dbl_eval [where e = "- 8"] round_half_even_def Let_def)

lemma beta_3:
  "dadd (Fin (1751686768572115 / 288230376151711744)) (Fin (5786937806088825 / 4611686018427387904)) = Fin (4226740762905333 / 576460752303423488)"
  by (simp add: dadd_def dbl_eval [where e = "- 8"] round_half_even_def Let_def)

lemma beta_4:
  "dadd (Fin (4226740762905333 / 576460752303423488)) (Fin (7387239273354319 / 18446744073709551616)) = Fin (8915183980395311 / 1152921504606846976)"
  by (simp add: dadd_def dbl_eval [where e = "- 8"] round_half_even_def Let_def)

lemma beta_5:
  "dadd (Fin (8915183980395311 / 1152921504606846976)) (Fin (- (1406164457770043 / 9223372036854775808))) = Fin (1092426677896757 / 144115188075855872)"
  by (simp add: dadd_def dbl_eval [where e = "- 8"] round_half_even_def Let_def)

lemma exponent_3:
  "dmul (Fin (1 / 8796093022208)) (Fin (1092426677896757 / 144115188075855872)) = Fin (1092426677896757 / 1267650600228229401496703205376)"
  by (simp add: dmul_def dbl_eval [where e = "- 51"] round_half_even_def Let_def)

lemmas attenuation_steps =
  lit_c_0 ten_to_minus_3 c_0_double lit_c_1 ten_to_minus_4 c_1_double lit_c_2
  ten_to_minus_7 c_2_double lit_c_3 ten_to_minus_6 c_3_double lit_c_4 c_4_double
  lit_c_5 ten_to_minus_9 c_5_double lit_c_6 c_6_double lit_c_7 ten_to_minus_12
  c_7_double lit_c_8 c_8_double lit_0981 depth_double c_1_r r_squared c_2_r2 c_4_r
  c_3_c_4_r term_3 c_6_r c_5_c_6_r depth_squared term_4 c_8_r c_7_c_8_r depth_cubed
  term_5 beta_1 beta_2 beta_3 beta_4 beta_5

lemma attenuation_length_double_example:
  "attenuation_length_double (Fin (8684382640825957 / 8796093022208)) (Fin 3) =
     Fin (1092426677896757 / 144115188075855872)"
  by (simp only: attenuation_length_double_def Let_def attenuation_steps fneg.simps)

lemma nanmean_double_three:
  "nanmean_double sum_in_sequence (replicate 3 (Fin (4342191320412979 / 4398046511104))) =
     Fin (8684382640825957 / 8796093022208)"
  by (simp add: nanmean_double_def sum_in_sequence_def count_not_nan_def numeral_3_eq_3
      sum_1 sum_2 sum_3 mean_3)

lemma nanmean_double_two:
  "nanmean_double sum_in_sequence (replicate 2 (Fin (8684382640825957 / 8796093022208))) =
     Fin (8684382640825957 / 8796093022208)"
  by (simp add: nanmean_double_def sum_in_sequence_def count_not_nan_def numeral_2_eq_2
      sum2_1 sum2_2 mean_2)

text \<open>The exponential of the product lies between 1 + 3.5 and 1 + 4.5 units of \<open>2^-52\<close>.\<close>

lemma dexp_example:
  "dexp (Fin (1092426677896757 / 1267650600228229401496703205376)) =
     Fin (1125899906842625 / 1125899906842624)"
proof -
  let ?e = "1092426677896757 / 1267650600228229401496703205376 :: real"
  have lo: "1 + ?e \<le> exp ?e" by (rule exp_ge_add_one_self)
  have hi: "exp ?e \<le> 1 + ?e + ?e\<^sup>2" by (rule exp_bound) simp_all
  have r: "round_half_even (exp ?e * 4503599627370496) = 4503599627370500"
    by (rule round_half_even_eq) (use lo hi in \<open>simp_all add: power2_eq_square\<close>)
  have b1: "2 powi 0 \<le> \<bar>exp ?e\<bar>" using lo by simp
  have b2: "\<bar>exp ?e\<bar> < 2 powi (0 + 1)" using hi by (simp add: power2_eq_square)
  show ?thesis
    using r by (simp add: dexp_def dbl_eval [OF b1 b2] Let_def power_int_minus)
qed

subsection \<open>The factor of a flat series\<close>

text \<open>
  Three samples 987.3 and the rigidity 3: the computed mean is below the sample, and
  the factor is \<open>1 + 2^-50\<close> (1.0000000000000009) at every sample, not 1.
\<close>

lemma lit_sample: "lit 987.3 = Fin (4342191320412979 / 4398046511104)"
  by (simp add: lit_def dbl_eval [where e = 9] round_half_even_def Let_def)

theorem pressure_correction_flat_rounded_mean:
  "pressure_correction sum_in_sequence (replicate 3 (lit 987.3)) (Fin 3) =
     replicate 3 (Fin (1 + 1 / 2 ^ 50))"
  unfolding lit_sample
  by (simp add: pressure_correction_def Let_def nanmean_double_three
      attenuation_length_double_example diff_3 exponent_3 dexp_example)

text \<open>
  C7, amended. For a pressure series whose samples all hold the same finite value \<open>c\<close>,
  and a finite rigidity at which the attenuation length is finite: when the computed
  mean of the series is \<open>c\<close>, the pressure correction factor is exactly 1 at every
  sample, whatever the order in which the mean was summed. (When rounding moves the
  computed mean away from \<open>c\<close>, the factor is not 1, as for 987.3 three times.)
\<close>

theorem pressure_correction_flat_exact_mean:
  assumes "nanmean_double np_sum (replicate n (Fin c)) = Fin c"
      and "attenuation_length_double (Fin c) (Fin r) = Fin b"
  shows "pressure_correction np_sum (replicate n (Fin c)) (Fin r) = replicate n (Fin 1)"
  by (simp add: pressure_correction_def Let_def assms dsub_def fsub_def dmul_def dexp_def
      dbl_zero dbl_one)

text \<open>Two samples 987.2999999999998: their sum is exact, and so is their mean.\<close>

theorem pressure_correction_flat_exact_mean_witness:
  "nanmean_double sum_in_sequence (replicate 2 (Fin (8684382640825957 / 8796093022208))) =
     Fin (8684382640825957 / 8796093022208)
   \<and> attenuation_length_double (Fin (8684382640825957 / 8796093022208)) (Fin 3) =
     Fin (1092426677896757 / 144115188075855872)
   \<and> pressure_correction sum_in_sequence (replicate 2 (Fin (8684382640825957 / 8796093022208))) (Fin 3) =
     replicate 2 (Fin 1)"
  using pressure_correction_flat_exact_mean
    [OF nanmean_double_two attenuation_length_double_example]
    nanmean_double_two attenuation_length_double_example
  by simp

text \<open>A rigidity that is not a number gives factors that are not numbers.\<close>

lemma fmul_NaN_right: "fmul x NaN = NaN"
  by (cases x) simp_all

lemma fadd_NaN_right: "fadd x NaN = NaN"
  by (cases x) simp_all

lemma attenuation_length_double_NaN: "attenuation_length_double p NaN = NaN"
  by (simp add: attenuation_length_double_def Let_def dmul_def dadd_def fmul_NaN_right
      fadd_NaN_right)

lemma pressure_correction_NaN_rigidity:
  "pressure_correction np_sum pressure NaN = replicate (length pressure) NaN"
  by (simp add: pressure_correction_def Let_def attenuation_length_double_NaN dmul_def
      dexp_def fmul_NaN_right map_replicate_const comp_def)

section \<open>Properties of the quality filter\<close>

lemma filter_all_nan:
  "list_all isnan data \<Longrightarrow> filter (\<lambda>i. \<not> isnan (data ! i)) [0..<length data] = []"
  by (auto simp: filter_empty_conv list_all_length)

text \<open>
  C10. For a data series in which every value is missing, \<open>interp_nans\<close> raises an
  error and returns no series: \<open>np.interp\<close> is given an empty array of sample points.
\<close>

theorem interp_nans_all_missing:
  "list_all isnan data \<Longrightarrow> interp_nans data = Inl (ValueError ''array of sample points is empty'')"
  by (simp add: interp_nans_def np_interp_def Let_def filter_all_nan)

text \<open>
  The series of the example is a column after the QC masking, every sample of which
  was flagged.
\<close>

theorem interp_nans_all_missing_witness:
  "list_all isnan (qc_mask_column [Fin 1, Fin 3] [Fin 10, Fin 20]) \<and>
   interp_nans (qc_mask_column [Fin 1, Fin 3] [Fin 10, Fin 20]) =
     Inl (ValueError ''array of sample points is empty'')"
proof -
  have h: "list_all isnan (qc_mask_column [Fin 1, Fin 3] [Fin 10, Fin 20])"
    by (simp add: qc_mask_column_def fgreater_def)
  show ?thesis using h interp_nans_all_missing [OF h] by simp
qed

lemma qc_mask_column_all_flagged:
  "length flags = length column \<Longrightarrow> list_all (\<lambda>f. fgreater f (Fin 0)) flags \<Longrightarrow>
   list_all isnan (qc_mask_column flags column)"
  by (auto simp: qc_mask_column_def list_all_length)

lemmas outlier_defs = handle_outliers_interp_def handle_outliers_interp_key_def
  handle_outliers_interp_column_def outliers_to_nans_def percentile_def fsort_def lerp_def
  fsub_def fgreater_def interp_nans_def np_interp_def interp_point_def assign_at_def Let_def
  upt_rec

lemma outliers_first_pass:
  "handle_outliers_interp
     \<lparr>df_index = [0, 1, 2, 3], df_columns = [''CTS_MOD'' \<mapsto> [Fin 5, Fin 1, Fin 2, Fin 3]]\<rparr>
     [''CTS_MOD''] 1 97 =
   Inr \<lparr>df_index = [0, 1, 2, 3], df_columns = [''CTS_MOD'' \<mapsto> [Fin 2, Fin 2, Fin 2, Fin 3]]\<rparr>"
  by (simp add: outlier_defs)

lemma outliers_second_pass:
  "handle_outliers_interp
     \<lparr>df_index = [0, 1, 2, 3], df_columns = [''CTS_MOD'' \<mapsto> [Fin 2, Fin 2, Fin 2, Fin 3]]\<rparr>
     [''CTS_MOD''] 1 97 =
   Inr \<lparr>df_index = [0, 1, 2, 3], df_columns = [''CTS_MOD'' \<mapsto> [Fin 2, Fin 2, Fin 2, Fin 2]]\<rparr>"
  by (simp add: outlier_defs)

text \<open>
  The series 5, 1, 2, 3 with the percentile bounds 1 and 97: the first application
  removes 5 and 1 and gives 2, 2, 2, 3; the second one computes its percentile values
  from that series, removes 3 and gives 2, 2, 2, 2.
\<close>

theorem handle_outliers_interp_not_idempotent:
  "\<exists>once twice.
     handle_outliers_interp
       \<lparr>df_index = [0, 1, 2, 3], df_columns = [''CTS_MOD'' \<mapsto> [Fin 5, Fin 1, Fin 2, Fin 3]]\<rparr>
       [''CTS_MOD''] 1 97 = Inr once
     \<and> handle_outliers_interp once [''CTS_MOD''] 1 97 = Inr twice
     \<and> df_columns once ''CTS_MOD'' = Some [Fin 2, Fin 2, Fin 2, Fin 3]
     \<and> df_columns twice ''CTS_MOD'' = Some [Fin 2, Fin 2, Fin 2, Fin 2]"
  using outliers_first_pass outliers_second_pass by simp

lemma percentile_nonempty: "percentile y q = Inr a \<Longrightarrow> y \<noteq> []"
  by (auto simp: percentile_def split: if_splits)

lemma filter_nan_none:
  "list_all (\<lambda>v. \<not> isnan v) y \<Longrightarrow> filter (\<lambda>i. isnan (y ! i)) [0..<length y] = []"
  by (auto simp: filter_empty_conv list_all_length)

lemma filter_not_nan_all:
  "list_all (\<lambda>v. \<not> isnan v) y \<Longrightarrow> filter (\<lambda>i. \<not> isnan (y ! i)) [0..<length y] = [0..<length y]"
  by (auto simp: filter_id_conv list_all_length)

text \<open>A series with no missing value is returned unchanged by the interpolation.\<close>

lemma interp_nans_no_nan:
  assumes "y \<noteq> []" and "list_all (\<lambda>v. \<not> isnan v) y"
  shows "interp_nans y = Inr y"
  using assms
  by (simp add: interp_nans_def np_interp_def Let_def filter_nan_none filter_not_nan_all
      assign_at_def)

lemma outliers_to_nans_none:
  assumes "percentile y lo = Inr a" and "percentile y hi = Inr b"
    and "list_all (\<lambda>v. \<not> fgreater v b \<and> \<not> fless v a) y"
  shows "outliers_to_nans y lo hi = Inr y"
proof -
  have "map (\<lambda>v. if fgreater v b \<or> fless v a then NaN else v) y = y"
    using assms(3) by (induction y) auto
  then show ?thesis using assms(1,2) by (simp add: outliers_to_nans_def)
qed

lemma handle_outliers_interp_column_fixed:
  assumes "within_own_percentiles lo hi y"
  shows "handle_outliers_interp_column y lo hi = Inr y"
proof -
  from assms obtain a b where a: "percentile y lo = Inr a" and b: "percentile y hi = Inr b"
    and all: "list_all (\<lambda>v. \<not> isnan v \<and> \<not> fgreater v b \<and> \<not> fless v a) y"
    by (auto simp: within_own_percentiles_def split: sum.splits)
  have ne: "y \<noteq> []" using a by (rule percentile_nonempty)
  have n: "list_all (\<lambda>v. \<not> isnan v) y"
    and w: "list_all (\<lambda>v. \<not> fgreater v b \<and> \<not> fless v a) y"
    using all by (auto simp: list_all_iff)
  show ?thesis
    by (simp add: handle_outliers_interp_column_def outliers_to_nans_none [OF a b w]
        interp_nans_no_nan [OF ne n])
qed

lemma handle_outliers_interp_key_fixed:
  assumes "df_columns data key = Some y" and "within_own_percentiles lo hi y"
  shows "handle_outliers_interp_key lo hi key data = Inr data"
proof -
  have "(df_columns data)(key \<mapsto> y) = df_columns data"
    using assms(1) by (rule map_upd_triv)
  then show ?thesis
    using assms(1) handle_outliers_interp_column_fixed [OF assms(2)]
    by (simp add: handle_outliers_interp_key_def)
qed

lemma for_each_fixed:
  "list_all (\<lambda>x. body x s = Inr s) xs \<Longrightarrow> for_each body xs s = Inr s"
  by (induction xs) simp_all

text \<open>
  C8, amended. Outlier removal with interpolation is not idempotent: the second
  application computes the percentile values anew, from the series the first one
  returned, and can remove further samples. Applying it twice gives the result of
  applying it once when every column of the once-cleaned table lies within its own
  percentile values (no missing value, no value above its own upper percentile value
  or below its own lower one).
\<close>

theorem handle_outliers_interp_twice:
  assumes "handle_outliers_interp data keys lo hi = Inr once"
    and "columns_settled lo hi keys once"
  shows "handle_outliers_interp once keys lo hi = handle_outliers_interp data keys lo hi"
proof -
  have "list_all (\<lambda>key. handle_outliers_interp_key lo hi key once = Inr once) keys"
    using assms(2)
    by (auto simp: columns_settled_def list_all_iff handle_outliers_interp_key_fixed
        split: option.splits)
  then have "handle_outliers_interp once keys lo hi = Inr once"
    unfolding handle_outliers_interp_def by (rule for_each_fixed)
  then show ?thesis using assms(1) by simp
qed

lemma outliers_witness_pass:
  "handle_outliers_interp
     \<lparr>df_index = [0, 1, 2, 3], df_columns = [''CTS_MOD'' \<mapsto> [Fin 1, Fin 2, Fin 3, Fin 4]]\<rparr>
     [''CTS_MOD''] 1 97 =
   Inr \<lparr>df_index = [0, 1, 2, 3], df_columns = [''CTS_MOD'' \<mapsto> [Fin 2, Fin 2, Fin 3, Fin 3]]\<rparr>"
  by (simp add: outlier_defs)

text \<open>
  The series 1, 2, 3, 4 with the bounds 1 and 97: the first application gives
  2, 2, 3, 3, whose percentile values are 2 and 3, and the second one changes nothing.
\<close>

theorem handle_outliers_interp_twice_witness:
  "handle_outliers_interp
     \<lparr>df_index = [0, 1, 2, 3], df_columns = [''CTS_MOD'' \<mapsto> [Fin 1, Fin 2, Fin 3, Fin 4]]\<rparr>
     [''CTS_MOD''] 1 97 =
   Inr \<lparr>df_index = [0, 1, 2, 3], df_columns = [''CTS_MOD'' \<mapsto> [Fin 2, Fin 2, Fin 3, Fin 3]]\<rparr>
   \<and> columns_settled 1 97 [''CTS_MOD'']
       \<lparr>df_index = [0, 1, 2, 3], df_columns = [''CTS_MOD'' \<mapsto> [Fin 2, Fin 2, Fin 3, Fin 3]]\<rparr>
   \<and> handle_outliers_interp
     \<lparr>df_index = [0, 1, 2, 3], df_columns = [''CTS_MOD'' \<mapsto> [Fin 2, Fin 2, Fin 3, Fin 3]]\<rparr>
     [''CTS_MOD''] 1 97 =
   Inr \<lparr>df_index = [0, 1, 2, 3], df_columns = [''CTS_MOD'' \<mapsto> [Fin 2, Fin 2, Fin 3, Fin 3]]\<rparr>"
proof -
  let ?y = "[Fin 2, Fin 2, Fin 3, Fin 3]"
  let ?d = "\<lparr>df_index = [0, 1, 2, 3], df_columns = [''CTS_MOD'' \<mapsto> ?y]\<rparr>"
  have h3: "percentile ?y 1 = Inr (Fin 2)"
    by (simp add: percentile_def fsort_def lerp_def fsub_def Let_def)
  have h4: "percentile ?y 97 = Inr (Fin 3)"
    by (simp add: percentile_def fsort_def lerp_def fsub_def Let_def)
  have h: "columns_settled 1 97 [''CTS_MOD''] ?d"
    by (simp add: columns_settled_def within_own_percentiles_def h3 h4 fgreater_def)
  show ?thesis
    using handle_outliers_interp_twice [OF outliers_witness_pass h] outliers_witness_pass h
    by simp
qed

section \<open>Properties of the aggregator's statistics and the normalizer\<close>

lemma columns_of_Cons: "columns_of (r # rs) = map (column_at (r # rs)) [0..<length r]"
  by (simp add: column_at_def)

lemma average_key_value:
  assumes "data_dict key = Some (r # rs)"
  shows "average_key data_dict key average =
     Inr (average(''E_'' @ key \<mapsto> map (poisson_error_at (r # rs)) [0..<length r],
                  key \<mapsto> map (combined_mean_at (r # rs)) [0..<length r]))"
  using assms
  by (simp add: average_key_def nansum_axis0_def count_not_nan_axis0_def Let_def zip_map_map
      zip_same_conv_map columns_of_Cons poisson_error_at_def [abs_def]
      combined_mean_at_def [abs_def] o_def del: columns_of.simps upt.simps)

text \<open>The entries of the result that the loop over the keys does not assign.\<close>

lemma for_each_average_untouched:
  "for_each (average_key data_dict) keys a0 = Inr a \<Longrightarrow> x \<notin> set keys \<Longrightarrow>
   x \<notin> (\<lambda>k. ''E_'' @ k) ` set keys \<Longrightarrow> a x = a0 x"
proof (induction keys arbitrary: a0)
  case Nil
  then show ?case by simp
next
  case (Cons k ks)
  from Cons.prems(1) obtain a1 where a1: "average_key data_dict k a0 = Inr a1"
    and rest: "for_each (average_key data_dict) ks a1 = Inr a"
    by (auto split: sum.splits)
  from a1 have "a1 x = a0 x" using Cons.prems(2,3)
    by (auto simp: average_key_def Let_def split: option.splits)
  moreover have "a x = a1 x" using Cons.IH [OF rest] Cons.prems(2,3) by auto
  ultimately show ?case by simp
qed

lemma for_each_average_key:
  assumes "for_each (average_key data_dict) keys a0 = Inr a"
    and "key \<in> set keys" and "data_dict key = Some (r # rs)"
    and "list_all (\<lambda>k. ''E_'' @ k \<notin> set keys) keys"
  shows "a key = Some (map (combined_mean_at (r # rs)) [0..<length r]) \<and>
         a (''E_'' @ key) = Some (map (poisson_error_at (r # rs)) [0..<length r])"
  using assms
proof (induction keys arbitrary: a0)
  case Nil
  then show ?case by simp
next
  case (Cons k ks)
  from Cons.prems(1) obtain a1 where a1: "average_key data_dict k a0 = Inr a1"
    and rest: "for_each (average_key data_dict) ks a1 = Inr a"
    by (auto split: sum.splits)
  have noE: "list_all (\<lambda>k. ''E_'' @ k \<notin> set ks) ks"
    using Cons.prems(4) by (auto simp: list_all_iff)
  show ?case
  proof (cases "key \<in> set ks")
    case True
    then show ?thesis using Cons.IH [OF rest True Cons.prems(3) noE] by simp
  next
    case False
    then have k: "k = key" using Cons.prems(2) by simp
    have n1: "key \<notin> (\<lambda>k. ''E_'' @ k) ` set ks"
      using Cons.prems(4) k by (auto simp: list_all_iff)
    have n2: "''E_'' @ key \<notin> set ks"
      using Cons.prems(4) k by (auto simp: list_all_iff)
    have n3: "''E_'' @ key \<notin> (\<lambda>k. ''E_'' @ k) ` set ks"
      using False by auto
    have "a key = a1 key" by (rule for_each_average_untouched [OF rest False n1])
    moreover have "a (''E_'' @ key) = a1 (''E_'' @ key)"
      by (rule for_each_average_untouched [OF rest n2 n3])
    moreover have "a1 = a0(''E_'' @ key \<mapsto> map (poisson_error_at (r # rs)) [0..<length r],
                  key \<mapsto> map (combined_mean_at (r # rs)) [0..<length r])"
      using a1 average_key_value [of data_dict key r rs a0] Cons.prems(3) k by simp
    ultimately show ?thesis by simp
  qed
qed

lemma for_each_average_total:
  "list_all (\<lambda>k. data_dict k \<noteq> None) keys \<Longrightarrow>
   \<exists>a. for_each (average_key data_dict) keys a0 = Inr a"
proof (induction keys arbitrary: a0)
  case Nil
  then show ?case by simp
next
  case (Cons k ks)
  then obtain arr where "data_dict k = Some arr" by auto
  then obtain a1 where "average_key data_dict k a0 = Inr a1"
    by (simp add: average_key_def Let_def)
  then show ?case using Cons by auto
qed

text \<open>
  C4. For an ensemble of a field (a two-dimensional array: a first row \<open>r\<close> and further
  rows \<open>rs\<close> of the same length, missing values allowed), the Combine step returns, at
  every timestamp \<open>j\<close>, as mean the sum of the station values that are not missing over
  their number, and as Poisson percentage error \<open>sqrt(sum) / sum * 100\<close> of that sum
  (not of the mean). The keys are those of the data dictionary, and no data key is the
  error key \<open>E_k\<close> of another one. The example is the ensemble [[10, 20, 30],
  [30, 40, 50]]: its mean is [20, 30, 40] and its error is computed from [40, 60, 80].
\<close>

theorem average_each_key_combine:
  assumes "list_all (\<lambda>k. data_dict k \<noteq> None) keys"
    and "list_all (\<lambda>k. ''E_'' @ k \<notin> set keys) keys"
    and "key \<in> set keys" and "data_dict key = Some (r # rs)"
    and "list_all (\<lambda>row. length row = length r) rs"
  shows "\<exists>average. average_each_key data_dict keys = Inr average
      \<and> average key = Some (map (combined_mean_at (r # rs)) [0..<length r])
      \<and> average (''E_'' @ key) = Some (map (poisson_error_at (r # rs)) [0..<length r])"
proof -
  obtain average where a: "for_each (average_key data_dict) keys Map.empty = Inr average"
    using for_each_average_total [OF assms(1)] by blast
  show ?thesis
    using a for_each_average_key [OF a assms(3,4,2)] by (auto simp: average_each_key_def)
qed

theorem average_each_key_combine_witness:
  "list_all (\<lambda>k. [''CTS_MOD'' \<mapsto> [[Fin 10, Fin 20, Fin 30], [Fin 30, Fin 40, Fin 50]]] k \<noteq> None)
     [''CTS_MOD'']
   \<and> list_all (\<lambda>k. ''E_'' @ k \<notin> set [''CTS_MOD'']) [''CTS_MOD'']
   \<and> list_all (\<lambda>row. length row = length [Fin 10, Fin 20, Fin 30]) [[Fin 30, Fin 40, Fin 50]]
   \<and> (\<exists>average.
        average_each_key [''CTS_MOD'' \<mapsto> [[Fin 10, Fin 20, Fin 30], [Fin 30, Fin 40, Fin 50]]]
          [''CTS_MOD''] = Inr average
        \<and> average ''CTS_MOD'' = Some [Fin 20, Fin 30, Fin 40]
        \<and> average ''E_CTS_MOD'' =
            Some [Fin (sqrt 40 / 40 * 100), Fin (sqrt 60 / 60 * 100), Fin (sqrt 80 / 80 * 100)])"
proof -
  let ?d = "[''CTS_MOD'' \<mapsto> [[Fin 10, Fin 20, Fin 30], [Fin 30, Fin 40, Fin 50]]]"
  have h1: "list_all (\<lambda>k. ?d k \<noteq> None) [''CTS_MOD'']" by simp
  have h2: "list_all (\<lambda>k. ''E_'' @ k \<notin> set [''CTS_MOD'']) [''CTS_MOD'']" by simp
  have h3: "''CTS_MOD'' \<in> set [''CTS_MOD'']" by simp
  have h4: "?d ''CTS_MOD'' = Some ([Fin 10, Fin 20, Fin 30] # [[Fin 30, Fin 40, Fin 50]])"
    by simp
  have h5: "list_all (\<lambda>row. length row = length [Fin 10, Fin 20, Fin 30])
      [[Fin 30, Fin 40, Fin 50]]" by simp
  have m: "map (combined_mean_at [[Fin 10, Fin 20, Fin 30], [Fin 30, Fin 40, Fin 50]])
      [0..<length [Fin 10, Fin 20, Fin (30::real)]] = [Fin 20, Fin 30, Fin 40]"
    by (simp add: combined_mean_at_def column_at_def nansum_def count_not_nan_def upt_rec)
  have e: "map (poisson_error_at [[Fin 10, Fin 20, Fin 30], [Fin 30, Fin 40, Fin 50]])
      [0..<length [Fin 10, Fin 20, Fin (30::real)]] =
      [Fin (sqrt 40 / 40 * 100), Fin (sqrt 60 / 60 * 100), Fin (sqrt 80 / 80 * 100)]"
    by (simp add: poisson_error_at_def column_at_def nansum_def upt_rec)
  from average_each_key_combine [OF h1 h2 h3 h4 h5] obtain average where
    a: "average_each_key ?d [''CTS_MOD''] = Inr average"
    and b: "average ''CTS_MOD'' =
      Some (map (combined_mean_at [[Fin 10, Fin 20, Fin 30], [Fin 30, Fin 40, Fin 50]])
        [0..<length [Fin 10, Fin 20, Fin (30::real)]])"
    and c: "average (''E_'' @ ''CTS_MOD'') =
      Some (map (poisson_error_at [[Fin 10, Fin 20, Fin 30], [Fin 30, Fin 40, Fin 50]])
        [0..<length [Fin 10, Fin 20, Fin (30::real)]])"
    by blast
  have b': "average ''CTS_MOD'' = Some [Fin 20, Fin 30, Fin 40]"
    using b unfolding m .
  have c': "average ''E_CTS_MOD'' =
      Some [Fin (sqrt 40 / 40 * 100), Fin (sqrt 60 / 60 * 100), Fin (sqrt 80 / 80 * 100)]"
    using c unfolding e by simp
  show ?thesis
    using h1 h2 h5 a b' c' by blast
qed

text \<open>
  C1. The Combine step stores the Poisson error of a field \<open>k\<close> under the key \<open>E_k\<close>;
  the normalizer reads it under the key \<open>k_std\<close>. For each of the three networks and
  every ensemble that the Combine step averages, the normalizer raises a KeyError at
  the first field and returns no normalized error series.
\<close>

theorem dict_to_rel_change_after_average:
  assumes "get_data_keys operator = Inr keys"
      and "average_each_key data_dict keys = Inr average"
    shows "dict_to_rel_change average keys = Inl (KeyError (hd keys @ ''_std''))"
proof -
  consider "keys = [''MOD'', ''UNMO'']" | "keys = [''CTS_MOD'']" | "keys = [''counts'']"
    using assms(1) by (auto simp: get_data_keys_def split: if_splits)
  then show ?thesis
  proof cases
    case 1
    with assms(2) show ?thesis
      by (auto simp: average_each_key_def average_key_def dict_to_rel_change_def
          rel_change_key_def Let_def split: option.splits sum.splits)
  next
    case 2
    with assms(2) show ?thesis
      by (auto simp: average_each_key_def average_key_def dict_to_rel_change_def
          rel_change_key_def Let_def split: option.splits sum.splits)
  next
    case 3
    with assms(2) show ?thesis
      by (auto simp: average_each_key_def average_key_def dict_to_rel_change_def
          rel_change_key_def Let_def split: option.splits sum.splits)
  qed
qed

theorem dict_to_rel_change_after_average_witness:
  "get_data_keys ''COSMOS-UK'' = Inr [''CTS_MOD'']
   \<and> (\<exists>average.
        average_each_key [''CTS_MOD'' \<mapsto> [[Fin 10, Fin 20, Fin 30], [Fin 30, Fin 40, Fin 50]]]
          [''CTS_MOD''] = Inr average
        \<and> dict_to_rel_change average [''CTS_MOD''] = Inl (KeyError ''CTS_MOD_std''))"
proof -
  have k: "get_data_keys ''COSMOS-UK'' = Inr [''CTS_MOD'']"
    by (simp add: get_data_keys_def)
  obtain average where a:
    "average_each_key [''CTS_MOD'' \<mapsto> [[Fin 10, Fin 20, Fin 30], [Fin 30, Fin 40, Fin 50]]]
          [''CTS_MOD''] = Inr average"
    by (simp add: average_each_key_def average_key_def Let_def)
  show ?thesis
    using dict_to_rel_change_after_average [OF k a] k a by simp
qed

text \<open>
  What the normalizer computes once the error series is found: the error over the
  averaged value, times 100, sample by sample.
\<close>

lemma normalise_std_same_length:
  "length std_array = length data_array \<Longrightarrow>
   normalise_std std_array data_array =
     Inr (map (\<lambda>(e, v). fmul (fdiv e v) (Fin 100)) (zip std_array data_array))"
  by (simp add: normalise_std_def elementwise_def split_def)

section \<open>Properties of the importer\<close>

lemma df_index_slice_labels:
  "df_index (slice_labels data start stop) =
     filter (\<lambda>t. start \<le> t \<and> t \<le> stop) (df_index data)"
  by (simp add: slice_labels_def rows_where_def)

text \<open>
  The table with the timestamps 0, 1, 2 and the window from 0 to 2: the window is
  covered, and the slice that is returned keeps the row at the timestamp 2, the end of
  the window.
\<close>

theorem slice_data_for_dates_keeps_stop:
  "\<exists>sliced. slice_data_for_dates
      \<lparr>df_index = [0, 1, 2], df_columns = [''counts'' \<mapsto> [Fin 10, Fin 20, Fin 30]]\<rparr> 0 2
        = Inr (sliced, True)
     \<and> df_index sliced = [0, 1, 2]
     \<and> df_columns sliced ''counts'' = Some [Fin 10, Fin 20, Fin 30]"
  by (simp add: slice_data_for_dates_def date_valid_def slice_labels_def rows_where_def
      df_empty_def Let_def)

text \<open>
  C5, amended. For a parsed table with at least one row, sorted by time, and a window
  from \<open>start\<close> to \<open>stop\<close>: if the first timestamp is after \<open>start\<close> or the last one
  before \<open>stop\<close>, the importer reports invalid and returns the table as it is; otherwise
  it returns, with validity true, the rows whose timestamp lies in the closed window
  \<open>[start, stop]\<close> (the row at \<open>stop\<close> included), unless there is no such row, in which
  case it reports invalid and returns the table as it is.
\<close>

theorem slice_data_for_dates_closed_window:
  assumes "df_index data \<noteq> []" and "sorted (df_index data)"
  shows "slice_data_for_dates data start stop =
      (if hd (df_index data) \<le> start \<and> stop \<le> last (df_index data)
          \<and> list_ex (\<lambda>t. start \<le> t \<and> t \<le> stop) (df_index data)
       then Inr (slice_labels data start stop, True)
       else Inr (data, False))
    \<and> df_index (slice_labels data start stop) =
        filter (\<lambda>t. start \<le> t \<and> t \<le> stop) (df_index data)"
proof -
  obtain t ts where ts: "df_index data = t # ts"
    using assms(1) by (cases "df_index data") auto
  have e: "df_empty (slice_labels data start stop) \<longleftrightarrow>
      \<not> list_ex (\<lambda>t. start \<le> t \<and> t \<le> stop) (df_index data)"
    by (simp add: df_empty_def df_index_slice_labels filter_empty_conv list_ex_iff)
  show ?thesis
    using e
    by (simp add: slice_data_for_dates_def date_valid_def ts Let_def df_index_slice_labels)
qed

theorem slice_data_for_dates_closed_window_witness:
  "df_index \<lparr>df_index = [0, 1, 2, 3], df_columns = [''counts'' \<mapsto> [Fin 1, Fin 2, Fin 3, Fin 4]]\<rparr> \<noteq> []
   \<and> sorted (df_index
        \<lparr>df_index = [0, 1, 2, 3], df_columns = [''counts'' \<mapsto> [Fin 1, Fin 2, Fin 3, Fin 4]]\<rparr>)
   \<and> (\<exists>sliced. slice_data_for_dates
        \<lparr>df_index = [0, 1, 2, 3], df_columns = [''counts'' \<mapsto> [Fin 1, Fin 2, Fin 3, Fin 4]]\<rparr> 1 2
          = Inr (sliced, True)
        \<and> df_index sliced = [1, 2])"
proof -
  let ?d = "\<lparr>df_index = [0, 1, 2, 3], df_columns = [''counts'' \<mapsto> [Fin 1, Fin 2, Fin 3, Fin 4]]\<rparr>"
  have h1: "df_index ?d \<noteq> []" by simp
  have h2: "sorted (df_index ?d)" by simp
  have s: "slice_data_for_dates ?d 1 2 = Inr (slice_labels ?d 1 2, True)"
    and i: "df_index (slice_labels ?d 1 2) = [1, 2]"
    using slice_data_for_dates_closed_window [OF h1 h2, of 1 2] by simp_all
  show ?thesis using h1 h2 s i by blast
qed

section \<open>Properties of the resampler\<close>

text \<open>
  C2. The original cadence \<open>3600s\<close> and the target cadence \<open>10800s\<close>: the target is
  greater and three times the original, and the text \<open>10800s\<close> is not greater than the
  text \<open>3600s\<close>, so \<open>resample_data\<close> raises the ValueError of its last branch and
  aggregates nothing.
\<close>

theorem resample_data_text_order:
  assumes "pd_Timedelta pd ''3600s'' = Inr 3600000000000"
      and "pd_Timedelta pd ''10800s'' = Inr 10800000000000"
  shows "resample_data pd data operator ''3600s'' ''10800s'' =
      Inl (ValueError ''New frequency must be = n * original frequency for n an int > 0'')"
  using assms by (simp add: resample_data_def str_greater_def)

theorem resample_data_text_order_witness:
  "pd_Timedelta pandas_example ''3600s'' = Inr 3600000000000
   \<and> pd_Timedelta pandas_example ''10800s'' = Inr 10800000000000
   \<and> (3600000000000::int) < 10800000000000
   \<and> (10800000000000::int) mod 3600000000000 = 0
   \<and> resample_data pandas_example \<lparr>df_index = [], df_columns = Map.empty\<rparr> ''NMDB''
        ''3600s'' ''10800s'' =
      Inl (ValueError ''New frequency must be = n * original frequency for n an int > 0'')"
proof -
  have h1: "pd_Timedelta pandas_example ''3600s'' = Inr 3600000000000"
    by (simp add: pandas_example_def)
  have h2: "pd_Timedelta pandas_example ''10800s'' = Inr 10800000000000"
    by (simp add: pandas_example_def)
  show ?thesis
    using resample_data_text_order [OF h1 h2] h1 h2 by simp
qed

text \<open>With the cadences compared as durations the same pair is aggregated.\<close>

lemma is_multiple_example: "is_multiple 10800000000000 3600000000000 = Inr True"
  by (simp add: is_multiple_def)

section \<open>Properties of the aggregator's run\<close>

lemma check_path_loop_returns:
  assumes "check_path_loop path_exists user_input path ret_path i = Some y"
  shows "path_exists path \<or> path = ''exit''"
proof (rule check_path_loop.raw_induct
    [where P = "\<lambda>path_exists user_input path ret_path i y. path_exists path \<or> path = ''exit''",
      OF _ assms])
  fix f :: "(string \<Rightarrow> bool) \<Rightarrow> (nat \<Rightarrow> string) \<Rightarrow> string \<Rightarrow> string \<Rightarrow> nat
      \<Rightarrow> (py_error + string) option"
  fix path_exists user_input path ret_path i y
  assume IH: "\<And>path_exists user_input path ret_path i y.
      f path_exists user_input path ret_path i = Some y \<Longrightarrow> path_exists path \<or> path = ''exit''"
  assume step: "(if path_exists path then Some (Inr ret_path)
      else let ret_path' = user_input i
           in if path = ''exit'' then Some (Inl (SystemExit 2))
              else f path_exists user_input path ret_path' (Suc i)) = Some y"
  show "path_exists path \<or> path = ''exit''"
  proof (cases "path_exists path \<or> path = ''exit''")
    case True
    then show ?thesis .
  next
    case False
    then have "f path_exists user_input path (user_input i) (Suc i) = Some y"
      using step by (simp add: Let_def)
    then show ?thesis by (rule IH)
  qed
qed

text \<open>
  C9. For a path that does not exist, \<open>check_path_exists\<close> never returns a path,
  whatever the user types: the loop tests the argument \<open>path\<close>, which no input changes.
  It runs forever, unless the argument itself is the text \<open>exit\<close>, in which case the
  first pass ends the process with \<open>exit(2)\<close>.
\<close>

theorem check_path_exists_missing:
  assumes "\<not> path_exists path"
  shows "check_path_exists path_exists user_input path =
      (if path = ''exit'' then Some (Inl (SystemExit 2)) else None)"
proof (cases "path = ''exit''")
  case True
  then show ?thesis using assms
    by (subst check_path_exists_def, subst check_path_loop.simps) simp
next
  case False
  have "check_path_loop path_exists user_input path path 0 = None"
  proof (cases "check_path_loop path_exists user_input path path 0")
    case None
    then show ?thesis .
  next
    case (Some y)
    then show ?thesis using check_path_loop_returns [OF Some] assms False by simp
  qed
  then show ?thesis using False by (simp add: check_path_exists_def)
qed

text \<open>The user types \<open>exit\<close> at every prompt, and the loop does not end.\<close>

theorem check_path_exists_missing_witness:
  "\<not> (\<lambda>p. False) ''data/'' \<and>
   check_path_exists (\<lambda>p. False) (\<lambda>i. ''exit'') ''data/'' = None"
proof -
  have h: "\<not> (\<lambda>p::string. False) ''data/''" by simp
  show ?thesis
    using check_path_exists_missing [OF h, of "\<lambda>i. ''exit''"] by simp
qed

lemma station_loop_all_continue:
  "list_all (\<lambda>station. body station = Continue) stations \<Longrightarrow>
   station_loop body stations = Continue"
  by (induction stations) simp_all

text \<open>
  C3. A run of a known network in which every pass of the loop over the stations ends
  with \<open>continue\<close> (every station is skipped) does not complete: after the loop the
  variable \<open>all_data\<close> is read, which no line has assigned, and the run aborts with an
  UnboundLocalError.
\<close>

theorem average_neutron_data_all_skipped:
  assumes "get_other_keys operator = Some other_keys"
      and "pd_Timedelta pd new_frequency = Inr td" and "td \<noteq> 0"
      and "list_all (\<lambda>station.
              station_pass pd operator start_date stop_date rigidity_range original_frequency
                new_frequency excluded_stations other_keys
                (real_of_int (stop_date - start_date) / real_of_int td
                  + real_of_int (length_mod other_keys))
                station = Continue) station_info"
  shows "average_neutron_data pd station_info operator start_date stop_date rigidity_range
            original_frequency new_frequency excluded_stations =
         Inl (UnboundLocalError ''all_data'')"
proof -
  have op: "operator = ''COSMOS-US'' \<or> operator = ''COSMOS-UK''"
    using assms(1) by (auto simp: get_other_keys_def split: if_splits)
  have loop: "station_loop
      (station_pass pd operator start_date stop_date rigidity_range original_frequency
                new_frequency excluded_stations other_keys
                (real_of_int (stop_date - start_date) / real_of_int td
                  + real_of_int (length_mod other_keys)))
      station_info = Continue"
    using assms(4) by (rule station_loop_all_continue)
  from op show ?thesis
    using assms(1,2,3) loop
    by (auto simp: average_neutron_data_def get_data_keys_def get_error_keys_def Let_def)
qed

text \<open>
  No run of the modelled part returns a table: a station that is not skipped raises, and
  a loop that skipped every station is followed by the read of \<open>all_data\<close>.
\<close>

lemma average_neutron_data_never_returns:
  "average_neutron_data pd station_info operator start_date stop_date rigidity_range
      original_frequency new_frequency excluded_stations \<noteq> Inr result"
  by (auto simp: average_neutron_data_def Let_def split: option.splits sum.splits pass.splits)

text \<open>The ways a station is skipped.\<close>

lemma station_pass_excluded:
  "fst station \<in> set excluded_stations \<Longrightarrow>
   station_pass pd operator start_date stop_date rigidity_range original_frequency
     new_frequency excluded_stations other_keys len station = Continue"
  by (simp add: station_pass_def Let_def)

lemma station_pass_rigidity:
  "\<not> (fle (fst rigidity_range) (snd station) \<and> fle (snd station) (snd rigidity_range)) \<Longrightarrow>
   station_pass pd operator start_date stop_date rigidity_range original_frequency
     new_frequency excluded_stations other_keys len station = Continue"
  by (simp add: station_pass_def Let_def)

lemma station_pass_invalid:
  "import_neutron_data pd (fst station @ extension other_keys) operator
      (Some (start_date, stop_date)) = Inr (station_data, valid) \<Longrightarrow>
   \<not> valid \<or> df_empty station_data \<Longrightarrow>
   station_pass pd operator start_date stop_date rigidity_range original_frequency
     new_frequency excluded_stations other_keys len station = Continue"
  by (auto simp: station_pass_def Let_def)

lemma station_pass_length:
  "import_neutron_data pd (fst station @ extension other_keys) operator
      (Some (start_date, stop_date)) = Inr (station_data, True) \<Longrightarrow>
   resample_data pd station_data operator original_frequency new_frequency = Inr resampled \<Longrightarrow>
   real (length (df_index resampled)) \<noteq> len \<Longrightarrow>
   station_pass pd operator start_date stop_date rigidity_range original_frequency
     new_frequency excluded_stations other_keys len station = Continue"
  by (auto simp: station_pass_def Let_def)

text \<open>
  The example: two stations of the UK network, the first excluded by name, the second
  with a cutoff rigidity outside the range from 0 to 20; one day at the cadence of an
  hour.
\<close>

theorem average_neutron_data_all_skipped_witness:
  "average_neutron_data pandas_example [(''ALIC1'', Fin 3), (''BALRD'', Fin 30)] ''COSMOS-UK''
      0 86400000000000 (Fin 0, Fin 20) ''3600s'' ''3600s'' [''ALIC1''] =
     Inl (UnboundLocalError ''all_data'')"
proof -
  let ?k = "\<lparr>meta_sep = '','', name_column = ''SITE_ID'', length_mod = 1, extension = ''.csv''\<rparr>"
  have h1: "get_other_keys ''COSMOS-UK'' = Some ?k"
    by (simp add: get_other_keys_def)
  have h2: "pd_Timedelta pandas_example ''3600s'' = Inr 3600000000000"
    by (simp add: pandas_example_def)
  have h3: "(3600000000000::int) \<noteq> 0" by simp
  have h4: "list_all (\<lambda>station.
              station_pass pandas_example ''COSMOS-UK'' 0 86400000000000 (Fin 0, Fin 20)
                ''3600s'' ''3600s'' [''ALIC1''] ?k
                (real_of_int (86400000000000 - 0) / real_of_int 3600000000000
                  + real_of_int (length_mod ?k))
                station = Continue) [(''ALIC1'', Fin 3), (''BALRD'', Fin 30)]"
    by (simp add: station_pass_def fle_def Let_def)
  show ?thesis
    by (rule average_neutron_data_all_skipped [OF h1 h2 h3 h4])
qed

end
